theory Spec2Isabelle
  imports Main "HOL-Library.Word"
begin

section \<open>AyresWiFiManager: the provisioning state machine\<close>

text \<open>
  A shallow embedding of \<^verbatim>\<open>src/AyresWiFiManager.cpp\<close> (version 2.0.2, the ESP32 build
  where the source branches on the platform). The class \<^verbatim>\<open>AyresWiFiManager\<close> becomes
  the record \<open>manager\<close>; every member function becomes a function that takes the
  manager and returns the updated one.

  The hardware and the libraries the class talks to are not part of the class:
  \<^item> what the class reads from them (the button pin, the link status, the number of
    stations on the access point, the file \<^verbatim>\<open>/wifi.json\<close>, the wall clock) is an
    \<open>env\<close>, one reading for every millisecond of uptime;
  \<^item> what the class does to them (radio mode, \<^verbatim>\<open>WiFi.begin\<close>, the soft AP, the DNS and
    HTTP servers, the erase of the JSON files, the restart) is appended to the trace
    \<open>events\<close> of the \<open>world\<close>, in program order;
  \<^item> \<^verbatim>\<open>millis()\<close> is the low 32 bits of the uptime in milliseconds
    (\<^verbatim>\<open>unsigned long\<close> is 32 bits wide on both targets), and \<^verbatim>\<open>delay(n)\<close> advances
    the uptime by \<open>n\<close> plus an overrun of less than 256 ms that the environment
    chooses. Statements between two delays take no time.
\<close>

subsection \<open>Data model\<close>

type_synonym u8 = "8 word"
type_synonym u16 = "16 word"
type_synonym u32 = "32 word"

datatype FallbackPolicy = ON_FAIL | NO_CREDENTIALS_ONLY | SMART_RETRIES | BUTTON_ONLY | NEVER

datatype LedPattern = LED_OFF | LED_ON | BLINK_SLOW | BLINK_FAST | BLINK_DOUBLE | BLINK_TRIPLE

datatype wifi_mode = WIFI_OFF | WIFI_STA | WIFI_AP | WIFI_AP_STA

text \<open>The content of \<^verbatim>\<open>/wifi.json\<close> as \<^verbatim>\<open>loadCredentials\<close> tells the cases apart.\<close>

datatype wifi_json = Missing | Unopenable | Malformed | Stored string string

text \<open>The calls to the collaborators that the trace records.\<close>

datatype event =
    WiFiMode wifi_mode
  | WiFiBegin string string
  | SoftAP string string
  | SoftAPDisconnect
  | ServerBegin
  | ServerStop
  | DnsStart
  | DnsStop
  | ConfigTime
  | ScanNetworks
  | EraseJsonInDir string
  | Restart

record env =
  buttonLow :: "nat \<Rightarrow> bool"
  linkUp :: "nat \<Rightarrow> bool"
  stationNum :: "nat \<Rightarrow> u8"
  wifiJson :: "nat \<Rightarrow> wifi_json"
  fsMounts :: "nat \<Rightarrow> bool"
  clockSet :: "nat \<Rightarrow> bool"
  scanSSIDs :: "nat \<Rightarrow> string list"
  overrun :: "nat \<Rightarrow> u8"

record world =
  uptime :: nat
  events :: "event list"

record manager =
  ssid :: string
  password :: string
  htmlPathPrefix :: string
  portalActive :: bool
  dnsRunning :: bool
  hostname :: string
  apSSID :: string
  apPASS :: string
  captiveEnabled :: bool
  portalTimeoutMs :: u32
  apClientCheck :: bool
  webClientCheck :: bool
  portalStart :: u32
  lastHttpAccess :: u32
  fallbackPolicy :: FallbackPolicy
  allowButtonPortal :: bool
  maxFailRetries :: u8
  failWindowMs :: u32
  failCount :: u8
  failWindowStart :: u32
  connected :: bool
  autoReconnect :: bool
  ultimoIntentoWiFi :: u32
  ultimoScan :: u32
  scanning :: bool
  scanningUntil :: u32
  ledAuto :: bool
  ledPat :: LedPattern
  ledOut :: bool
  ledStep :: u8
  ledT0 :: u32
  protectedExact :: "string list"
  reconnectBackoffMs :: u32
  reconnectAttemptMs :: u32
  externalApActive :: bool

text \<open>The member initialisers of \<^verbatim>\<open>AyresWiFiManager.h\<close>.\<close>

definition initial :: manager where
  "initial = \<lparr>
     ssid = [], password = [], htmlPathPrefix = ''/'',
     portalActive = False, dnsRunning = False,
     hostname = [], apSSID = ''WiFi Manager'', apPASS = ''123456789'',
     captiveEnabled = True, portalTimeoutMs = 0,
     apClientCheck = False, webClientCheck = True,
     portalStart = 0, lastHttpAccess = 0,
     fallbackPolicy = NO_CREDENTIALS_ONLY, allowButtonPortal = True,
     maxFailRetries = 3, failWindowMs = 60000, failCount = 0, failWindowStart = 0,
     connected = False, autoReconnect = True, ultimoIntentoWiFi = 0,
     ultimoScan = 0, scanning = False, scanningUntil = 0,
     ledAuto = True, ledPat = LED_OFF, ledOut = False, ledStep = 0, ledT0 = 0,
     protectedExact = [],
     reconnectBackoffMs = 10000, reconnectAttemptMs = 5000,
     externalApActive = False \<rparr>"

subsection \<open>Clock and trace\<close>

definition millis :: "world \<Rightarrow> u32" where
  "millis w = of_nat (uptime w)"

definition delay :: "env \<Rightarrow> nat \<Rightarrow> world \<Rightarrow> world" where
  "delay e n w = w\<lparr>uptime := uptime w + n + unat (overrun e (uptime w))\<rparr>"

definition emit :: "event \<Rightarrow> world \<Rightarrow> world" where
  "emit ev w = w\<lparr>events := events w @ [ev]\<rparr>"

subsection \<open>Status LED\<close>

definition ledSet :: "world \<Rightarrow> LedPattern \<Rightarrow> manager \<Rightarrow> manager" where
  "ledSet w p s = s\<lparr>ledPat := p, ledStep := 0, ledT0 := millis w\<rparr>"

definition setLedAuto :: "world \<Rightarrow> bool \<Rightarrow> manager \<Rightarrow> manager" where
  "setLedAuto w enable s =
     (let s1 = s\<lparr>ledAuto := enable\<rparr>
      in if ledAuto s1 then ledSet w LED_OFF s1 else s1)"

definition setLedPatternManual :: "world \<Rightarrow> LedPattern \<Rightarrow> manager \<Rightarrow> manager" where
  "setLedPatternManual w p s = ledSet w p (s\<lparr>ledAuto := False\<rparr>)"

definition ledAutoUpdate :: "env \<Rightarrow> world \<Rightarrow> manager \<Rightarrow> manager" where
  "ledAutoUpdate e w s =
     (if \<not> ledAuto s then s
      else
        let want =
          (if scanning s \<or> millis w < scanningUntil s then BLINK_FAST
           else if portalActive s then BLINK_SLOW
           else if linkUp e (uptime w) then LED_ON
           else LED_OFF)
        in if want \<noteq> ledPat s then ledSet w want s else s)"

text \<open>The lambda \<^verbatim>\<open>write\<close> of \<^verbatim>\<open>ledTask\<close>: the pin follows \<open>ledOut\<close>.\<close>

definition ledWrite :: "bool \<Rightarrow> manager \<Rightarrow> manager" where
  "ledWrite v s = (if ledOut s \<noteq> v then s\<lparr>ledOut := v\<rparr> else s)"

definition seqDouble :: "u16 list" where
  "seqDouble = [120, 120, 120, 640]"

definition onDouble :: "bool list" where
  "onDouble = [True, False, True, False]"

definition seqTriple :: "u16 list" where
  "seqTriple = [100, 100, 100, 100, 100, 500]"

definition onTriple :: "bool list" where
  "onTriple = [True, False, True, False, True, False]"

text \<open>
  \<^verbatim>\<open>seq[ledStep]\<close> is read inside the table as long as \<open>ledStep\<close> is below the
  length of the pattern's table; \<open>ledSet\<close> puts it back to 0 whenever the pattern
  changes. \<^verbatim>\<open>(ledStep + 1) % 4\<close> is computed in \<^verbatim>\<open>int\<close>.
\<close>

definition ledTask :: "world \<Rightarrow> manager \<Rightarrow> manager" where
  "ledTask w s =
     (let now = millis w in
      case ledPat s of
        LED_OFF \<Rightarrow> ledWrite False s
      | LED_ON \<Rightarrow> ledWrite True s
      | BLINK_SLOW \<Rightarrow> ledWrite ((now - ledT0 s) mod 1000 < 500) s
      | BLINK_FAST \<Rightarrow> ledWrite ((now - ledT0 s) mod 200 < 100) s
      | BLINK_DOUBLE \<Rightarrow>
          (if now - ledT0 s \<ge> ucast (seqDouble ! unat (ledStep s)) then
             let s1 = s\<lparr>ledT0 := now, ledStep := of_nat ((unat (ledStep s) + 1) mod 4)\<rparr>
             in ledWrite (onDouble ! unat (ledStep s1)) s1
           else s)
      | BLINK_TRIPLE \<Rightarrow>
          (if now - ledT0 s \<ge> ucast (seqTriple ! unat (ledStep s)) then
             let s1 = s\<lparr>ledT0 := now, ledStep := of_nat ((unat (ledStep s) + 1) mod 6)\<rparr>
             in ledWrite (onTriple ! unat (ledStep s1)) s1
           else s))"

subsection \<open>Portal lifecycle\<close>

definition startDNS :: "world \<times> manager \<Rightarrow> world \<times> manager" where
  "startDNS ws = (case ws of (w, s) \<Rightarrow>
     if dnsRunning s then (w, s) else (emit DnsStart w, s\<lparr>dnsRunning := True\<rparr>))"

definition stopDNS :: "world \<times> manager \<Rightarrow> world \<times> manager" where
  "stopDNS ws = (case ws of (w, s) \<Rightarrow>
     if \<not> dnsRunning s then (w, s) else (emit DnsStop w, s\<lparr>dnsRunning := False\<rparr>))"

definition setupAP :: "world \<Rightarrow> manager \<Rightarrow> world" where
  "setupAP w s = emit (SoftAP (apSSID s) (apPASS s)) (emit (WiFiMode WIFI_AP) w)"

definition startPortal :: "world \<Rightarrow> manager \<Rightarrow> world \<times> manager" where
  "startPortal w s =
     (if portalActive s then (w, s)
      else
        let w1 = emit ServerBegin (setupAP w s);
            (w2, s2) = (if captiveEnabled s then startDNS (w1, s)
                        else if dnsRunning s then stopDNS (w1, s) else (w1, s));
            s3 = s2\<lparr>portalActive := True\<rparr>;
            s4 = s3\<lparr>portalStart := millis w2\<rparr>;
            s5 = s4\<lparr>lastHttpAccess := portalStart s4\<rparr>
        in (w2, ledSet w2 BLINK_SLOW s5))"

definition stopPortal :: "world \<Rightarrow> manager \<Rightarrow> world \<times> manager" where
  "stopPortal w s =
     (if \<not> portalActive s then (w, s)
      else
        let (w1, s1) = stopDNS (w, s);
            w2 = emit ServerStop w1;
            w3 = (if \<not> externalApActive s1 then emit SoftAPDisconnect w2 else w2);
            s2 = s1\<lparr>portalActive := False\<rparr>;
            w4 = (if externalApActive s2 then emit (WiFiMode WIFI_AP) w3
                  else if ssid s2 \<noteq> [] then emit (WiFiMode WIFI_STA) w3
                  else emit (WiFiMode WIFI_OFF) w3)
        in (w4, s2))"

definition softAPStationCount :: "env \<Rightarrow> world \<Rightarrow> u8" where
  "softAPStationCount e w = stationNum e (uptime w)"

text \<open>\<^verbatim>\<open>portalHasTimedOut\<close> returns its verdict and the manager (it may move \<open>portalStart\<close>).\<close>

definition portalHasTimedOut :: "env \<Rightarrow> world \<Rightarrow> manager \<Rightarrow> bool \<times> manager" where
  "portalHasTimedOut e w s =
     (if portalTimeoutMs s = 0 then (False, s)
      else if apClientCheck s \<and> softAPStationCount e w > 0 then
        (False, s\<lparr>portalStart := millis w\<rparr>)
      else
        let base = (if webClientCheck s then lastHttpAccess s else portalStart s)
        in (millis w - base > portalTimeoutMs s, s))"

text \<open>
  One call of \<^verbatim>\<open>update()\<close> on a tick where the HTTP and DNS servers have no request
  to serve: \<^verbatim>\<open>server.handleClient()\<close> and \<^verbatim>\<open>dns.processNextRequest()\<close> then touch
  no member of the class.
\<close>

definition update :: "env \<Rightarrow> world \<Rightarrow> manager \<Rightarrow> world \<times> manager" where
  "update e w s =
     (let s1 = ledTask w (ledAutoUpdate e w s) in
      if portalActive s1 then
        (case portalHasTimedOut e w s1 of
           (True, s2) \<Rightarrow> stopPortal w s2
         | (False, s2) \<Rightarrow> (w, s2))
      else (w, s1))"

subsection \<open>Elapsed time across a delay\<close>

text \<open>
  The polling loops below end because every \<open>delay\<close> moves the 32-bit difference
  \<^verbatim>\<open>millis() - t0\<close> forward; the two lemmas are what their termination proofs need.
\<close>

lemma unat_plus_of_nat:
  fixes x :: u32
  assumes "unat x + d < 2 ^ 32"
  shows "unat (x + of_nat d) = unat x + d"
proof -
  have d: "unat (of_nat d :: u32) = d"
    using assms by (simp add: unat_of_nat)
  have "unat x + unat (of_nat d :: u32) < 2 ^ LENGTH(32)"
    using assms d by simp
  then have "unat (x + of_nat d) = unat x + unat (of_nat d :: u32)"
    by (simp only: unat_add_lem [THEN iffD1])
  with d show ?thesis by simp
qed

lemma elapsed_delay:
  assumes "unat (millis w - t0) + n + 256 \<le> 2 ^ 32"
  shows "unat (millis (delay e n w) - t0) =
         unat (millis w - t0) + n + unat (overrun e (uptime w))"
proof -
  define d where "d = n + unat (overrun e (uptime w))"
  have j: "unat (overrun e (uptime w)) < 256"
    using unsigned_less [of "overrun e (uptime w)", where ?'a = nat] by simp
  have "millis (delay e n w) - t0 = (millis w - t0) + of_nat d"
    by (simp add: millis_def delay_def d_def)
  moreover have "unat ((millis w - t0) + of_nat d) = unat (millis w - t0) + d"
    using assms j by (intro unat_plus_of_nat) (simp add: d_def)
  ultimately have "unat (millis (delay e n w) - t0) = unat (millis w - t0) + d"
    by (simp only:)
  then show ?thesis by (simp only: d_def add.assoc)
qed

subsection \<open>Credentials\<close>

definition tieneCredenciales :: "env \<Rightarrow> world \<Rightarrow> manager \<Rightarrow> bool" where
  "tieneCredenciales e w s \<longleftrightarrow>
     wifiJson e (uptime w) \<noteq> Missing \<and> ssid s \<noteq> [] \<and> password s \<noteq> []"

definition loadCredentials :: "env \<Rightarrow> world \<Rightarrow> manager \<Rightarrow> manager" where
  "loadCredentials e w s =
     (case wifiJson e (uptime w) of
        Missing \<Rightarrow> s
      | Unopenable \<Rightarrow> s
      | Malformed \<Rightarrow> s
      | Stored loadedSsid loadedPassword \<Rightarrow>
          if loadedSsid = [] \<or> loadedPassword = [] then s
          else s\<lparr>ssid := loadedSsid, password := loadedPassword\<rparr>)"

text \<open>\<^verbatim>\<open>begin()\<close>: the pin and radio set-up is not traced; a failed mount returns early.\<close>

definition begin_mgr :: "env \<Rightarrow> world \<Rightarrow> manager \<Rightarrow> manager" where
  "begin_mgr e w s = (if \<not> fsMounts e (uptime w) then s else loadCredentials e w s)"

text \<open>
  \<^verbatim>\<open>eraseCredentials()\<close> hands the root directory to \<^verbatim>\<open>eraseJsonInDir\<close>; the file
  store is a collaborator, so the model records the request.
\<close>

definition eraseCredentials :: "world \<Rightarrow> world" where
  "eraseCredentials w = emit (EraseJsonInDir ''/'') w"

subsection \<open>Time sync\<close>

fun ntpWait :: "env \<Rightarrow> nat \<Rightarrow> world \<Rightarrow> world" where
  "ntpWait e 0 w = w"
| "ntpWait e (Suc j) w = (if clockSet e (uptime w) then w else ntpWait e j (delay e 200 w))"

definition sincronizarHoraNTP :: "env \<Rightarrow> world \<Rightarrow> world" where
  "sincronizarHoraNTP e w = ntpWait e 20 (emit ConfigTime w)"

subsection \<open>Station connection\<close>

text \<open>The polling loop of \<^verbatim>\<open>connectToWiFi\<close> (\<^verbatim>\<open>TOUT_MS = 15000\<close>).\<close>

function connectWait :: "env \<Rightarrow> u32 \<Rightarrow> world \<Rightarrow> world \<times> bool" where
  "connectWait e t0 w =
     (if millis w - t0 < 15000 then
        (if linkUp e (uptime w) then (w, True) else connectWait e t0 (delay e 250 w))
      else (w, False))"
  by pat_completeness auto
termination
proof (relation "measure (\<lambda>(e, t0, w). 15000 - unat (millis w - t0))")
  show "wf (measure (\<lambda>(e, t0, w). 15000 - unat (millis w - t0)))" by simp
next
  fix e t0 w
  assume "millis w - t0 < 15000"
  then have b: "unat (millis w - t0) < 15000" by (simp add: word_less_nat_alt)
  then have "unat (millis (delay e 250 w) - t0) =
             unat (millis w - t0) + 250 + unat (overrun e (uptime w))"
    by (intro elapsed_delay) simp
  with b show "((e, t0, delay e 250 w), (e, t0, w))
                 \<in> measure (\<lambda>(e, t0, w). 15000 - unat (millis w - t0))"
    by simp
qed

definition connectToWiFi :: "env \<Rightarrow> world \<Rightarrow> manager \<Rightarrow> world \<times> manager \<times> bool" where
  "connectToWiFi e w s =
     (if \<not> tieneCredenciales e w s then (w, s, False)
      else
        let w1 = emit (WiFiBegin (ssid s) (password s)) (emit (WiFiMode WIFI_STA) w);
            t0 = millis w1
        in case connectWait e t0 w1 of
             (w2, True) \<Rightarrow> (w2, s\<lparr>connected := True\<rparr>, True)
           | (w2, False) \<Rightarrow> (w2, s\<lparr>connected := False\<rparr>, False))"

definition isConnected :: "env \<Rightarrow> world \<Rightarrow> manager \<Rightarrow> manager" where
  "isConnected e w s = s\<lparr>connected := linkUp e (uptime w)\<rparr>"

subsection \<open>Reconnection driver\<close>

text \<open>
  The polling loop of \<^verbatim>\<open>reintentarConexionSiNecesario\<close>. Its bound is the configured
  attempt window, any 32-bit value: with a window of \<^verbatim>\<open>0xFFFFFFFF\<close> the difference
  \<^verbatim>\<open>millis() - t0\<close> can wrap without ever reaching it, so the loop is a partial
  function and \<open>None\<close> stands for a loop that never ends.
\<close>

partial_function (option) reconnectWait ::
  "env \<Rightarrow> u32 \<Rightarrow> u32 \<Rightarrow> world \<Rightarrow> (world \<times> bool) option" where
  "reconnectWait e t0 lim w =
     (if millis w - t0 < lim then
        (if linkUp e (uptime w) then Some (w, True) else reconnectWait e t0 lim (delay e 250 w))
      else Some (w, False))"

text \<open>Lines 669 to 684: the failed attempt under \<^verbatim>\<open>SMART_RETRIES\<close>.\<close>

definition smartRetries :: "world \<Rightarrow> manager \<Rightarrow> world \<times> manager" where
  "smartRetries w s =
     (let s1 = (if failWindowStart s = 0 \<or> millis w - failWindowStart s > failWindowMs s
                then s\<lparr>failWindowStart := millis w, failCount := 0\<rparr> else s);
          s2 = s1\<lparr>failCount := failCount s1 + 1\<rparr>
      in if failCount s2 \<ge> maxFailRetries s2 then
           (case startPortal w s2 of
              (w3, s3) \<Rightarrow> (w3, s3\<lparr>failCount := 0, failWindowStart := 0\<rparr>))
         else (w, s2))"

definition reintentarConexionSiNecesario ::
  "env \<Rightarrow> world \<Rightarrow> manager \<Rightarrow> (world \<times> manager) option" where
  "reintentarConexionSiNecesario e w s =
     (if \<not> autoReconnect s then Some (w, s)
      else if linkUp e (uptime w) then Some (w, s\<lparr>connected := True\<rparr>)
      else
        let s1 = s\<lparr>connected := False\<rparr>;
            ahora = millis w
        in if ahora - ultimoIntentoWiFi s1 < reconnectBackoffMs s1 then Some (w, s1)
           else
             let s2 = s1\<lparr>ultimoIntentoWiFi := ahora\<rparr> in
             if ssid s2 \<noteq> [] \<and> password s2 \<noteq> [] then
               let w1 = emit (WiFiMode (if portalActive s2 \<or> externalApActive s2
                                        then WIFI_AP_STA else WIFI_STA)) w;
                   w2 = emit (WiFiBegin (ssid s2) (password s2)) w1;
                   t0 = millis w2
               in case reconnectWait e t0 (reconnectAttemptMs s2) w2 of
                    None \<Rightarrow> None
                  | Some (w3, True) \<Rightarrow>
                      Some (sincronizarHoraNTP e w3,
                            s2\<lparr>connected := True, failCount := 0, failWindowStart := 0\<rparr>)
                  | Some (w3, False) \<Rightarrow>
                      if fallbackPolicy s2 = SMART_RETRIES then Some (smartRetries w3 s2)
                      else Some (w3, s2)
             else Some (w, s2))"

definition forzarReconexion :: "world \<Rightarrow> manager \<Rightarrow> world \<times> manager" where
  "forzarReconexion w s =
     (let w1 = emit (WiFiMode (if portalActive s \<or> externalApActive s
                              then WIFI_AP_STA else WIFI_STA)) w;
          w2 = emit (WiFiBegin (ssid s) (password s)) w1
      in (w2, s\<lparr>ultimoIntentoWiFi := millis w2\<rparr>))"

text \<open>\<^verbatim>\<open>SCAN_INTERVAL_MS = 15000\<close>; the blocking scan itself is given no duration.\<close>

definition scanRedDetectada :: "env \<Rightarrow> world \<Rightarrow> manager \<Rightarrow> world \<times> manager \<times> bool" where
  "scanRedDetectada e w s =
     (let ahora = millis w in
      if ahora - ultimoScan s < 15000 then (w, s, False)
      else
        let s1 = s\<lparr>ultimoScan := ahora\<rparr> in
        if linkUp e (uptime w) \<and> \<not> portalActive s1 then (w, s1, False)
        else (emit ScanNetworks w, s1, ssid s1 \<in> set (scanSSIDs e (uptime w))))"

subsection \<open>The startup decision cycle\<close>

text \<open>
  \<^verbatim>\<open>ESP.restart()\<close> does not return: a call that reaches it ends as \<open>Restarted\<close>, with
  the world as the restart finds it, and the manager is gone with the RAM.
\<close>

datatype outcome = Returned world manager | Restarted world

text \<open>The arming window of \<^verbatim>\<open>run()\<close>: up to 2 s of polling for a press.\<close>

function armWait :: "env \<Rightarrow> u32 \<Rightarrow> world \<Rightarrow> manager \<Rightarrow> world \<times> manager \<times> bool" where
  "armWait e startTime w s =
     (if millis w - startTime < 2000 then
        (if buttonLow e (uptime w) then (w, s, True)
         else armWait e startTime (delay e 10 w) (ledTask w s))
      else (w, s, False))"
  by pat_completeness auto
termination
proof (relation "measure (\<lambda>(e, t0, w, s). 2000 - unat (millis w - t0))")
  show "wf (measure (\<lambda>(e, t0, w, s). 2000 - unat (millis w - t0)))" by simp
next
  fix e t0 w and s :: manager
  assume "millis w - t0 < 2000"
  then have b: "unat (millis w - t0) < 2000" by (simp add: word_less_nat_alt)
  then have "unat (millis (delay e 10 w) - t0) =
             unat (millis w - t0) + 10 + unat (overrun e (uptime w))"
    by (intro elapsed_delay) simp
  with b show "((e, t0, delay e 10 w, ledTask w s), (e, t0, w, s))
                 \<in> measure (\<lambda>(e, t0, w, s). 2000 - unat (millis w - t0))"
    by simp
qed

text \<open>
  The hold loop of \<^verbatim>\<open>run()\<close>: while the button reads LOW, \<open>held\<close> picks the feedback
  pattern, and at 5000 ms the credentials are erased and the device restarts from
  inside the loop. The pattern \<^verbatim>\<open>BLINK_TRIPLE\<close> that the code sets just before the erase
  is a write to the manager, which the restart discards; \<^verbatim>\<open>ledTask()\<close> is not called
  again before the restart, so the pin does not show it.
\<close>

function holdLoop :: "env \<Rightarrow> u32 \<Rightarrow> world \<Rightarrow> manager \<Rightarrow> outcome" where
  "holdLoop e t0 w s =
     (if buttonLow e (uptime w) then
        (if millis w - t0 \<ge> 5000 then
           Restarted (emit Restart (delay e 900 (eraseCredentials w)))
         else
           let s1 = (if millis w - t0 \<ge> 2000 then setLedPatternManual w BLINK_DOUBLE s
                     else setLedPatternManual w BLINK_FAST s)
           in holdLoop e t0 (delay e 10 w) (ledTask w s1))
      else Returned w s)"
  by pat_completeness auto
termination
proof (relation "measure (\<lambda>(e, t0, w, s). 5000 - unat (millis w - t0))")
  show "wf (measure (\<lambda>(e, t0, w, s). 5000 - unat (millis w - t0)))" by simp
next
  fix e t0 w and s s1 :: manager
  assume "\<not> 5000 \<le> millis w - t0"
  then have b: "unat (millis w - t0) < 5000" by (simp add: word_le_nat_alt)
  then have "unat (millis (delay e 10 w) - t0) =
             unat (millis w - t0) + 10 + unat (overrun e (uptime w))"
    by (intro elapsed_delay) simp
  with b show "((e, t0, delay e 10 w, ledTask w s1), (e, t0, w, s))
                 \<in> measure (\<lambda>(e, t0, w, s). 5000 - unat (millis w - t0))"
    by simp
qed

text \<open>
  \<^verbatim>\<open>run()\<close> is written in two halves. \<open>runGesture\<close> is lines 162 to 200, the button
  gesture: it ends in a restart, in an opened portal (\<^verbatim>\<open>run()\<close> returns there), or
  falls through to the second half. \<open>runFallback\<close> is lines 202 to 235, the
  connection attempt and the fallback policy.
\<close>

datatype gesture = GestureRestart world | GesturePortal world manager | GestureNone world manager

definition runGesture :: "env \<Rightarrow> world \<Rightarrow> manager \<Rightarrow> gesture" where
  "runGesture e w s =
     (let startTime = millis w;
          (w1, s1, pressed) = armWait e startTime w (ledSet w BLINK_SLOW s);
          s2 = ledSet w1 LED_OFF s1
      in if pressed then
           let t0 = millis w1 in
           case holdLoop e t0 w1 s2 of
             Restarted w2 \<Rightarrow> GestureRestart w2
           | Returned w2 s3 \<Rightarrow>
               let held = millis w2 - t0 in
               if held \<ge> 2000 \<and> held < 5000 \<and> allowButtonPortal s3 then
                 (case startPortal w2 (setLedAuto w2 True s3) of
                    (w3, s4) \<Rightarrow> GesturePortal w3 s4)
               else GestureNone w2 (setLedAuto w2 True s3)
         else GestureNone w1 s2)"

definition runFallback :: "env \<Rightarrow> world \<Rightarrow> manager \<Rightarrow> world \<times> manager" where
  "runFallback e w s =
     (case connectToWiFi e w s of
        (w1, s1, True) \<Rightarrow>
          let w2 = sincronizarHoraNTP e w1
          in (w2, (ledSet w2 LED_ON s1)\<lparr>connected := True\<rparr>)
      | (w1, s1, False) \<Rightarrow>
          (case fallbackPolicy s1 of
             ON_FAIL \<Rightarrow> startPortal w1 s1
           | NO_CREDENTIALS_ONLY \<Rightarrow>
               if \<not> tieneCredenciales e w1 s1 then startPortal w1 s1 else (w1, s1)
           | SMART_RETRIES \<Rightarrow> (w1, s1)
           | BUTTON_ONLY \<Rightarrow> (w1, s1)
           | NEVER \<Rightarrow> (w1, s1)))"

definition run :: "env \<Rightarrow> world \<Rightarrow> manager \<Rightarrow> outcome" where
  "run e w s =
     (case runGesture e w s of
        GestureRestart w1 \<Rightarrow> Restarted w1
      | GesturePortal w1 s1 \<Rightarrow> Returned w1 s1
      | GestureNone w1 s1 \<Rightarrow> (case runFallback e w1 s1 of (w2, s2) \<Rightarrow> Returned w2 s2))"

subsection \<open>Setters\<close>

definition setHtmlPathPrefix :: "string \<Rightarrow> manager \<Rightarrow> manager" where
  "setHtmlPathPrefix prefix s =
     s\<lparr>htmlPathPrefix :=
         (if prefix \<noteq> [] \<and> last prefix = CHR ''/'' then prefix else prefix @ ''/'')\<rparr>"

definition setHostname :: "string \<Rightarrow> manager \<Rightarrow> manager" where
  "setHostname host s = s\<lparr>hostname := host\<rparr>"

definition setAPCredentials :: "string \<Rightarrow> string \<Rightarrow> manager \<Rightarrow> manager" where
  "setAPCredentials ssid' pass' s = s\<lparr>apSSID := ssid', apPASS := pass'\<rparr>"

definition setCaptivePortal :: "bool \<Rightarrow> manager \<Rightarrow> manager" where
  "setCaptivePortal enabled s = s\<lparr>captiveEnabled := enabled\<rparr>"

definition setPortalTimeout :: "u32 \<Rightarrow> manager \<Rightarrow> manager" where
  "setPortalTimeout seconds s = s\<lparr>portalTimeoutMs := seconds * 1000\<rparr>"

definition setAPClientCheck :: "bool \<Rightarrow> manager \<Rightarrow> manager" where
  "setAPClientCheck enabled s = s\<lparr>apClientCheck := enabled\<rparr>"

definition setWebClientCheck :: "bool \<Rightarrow> manager \<Rightarrow> manager" where
  "setWebClientCheck enabled s = s\<lparr>webClientCheck := enabled\<rparr>"

definition openPortal :: "world \<Rightarrow> manager \<Rightarrow> world \<times> manager" where
  "openPortal w s = startPortal w s"

definition closePortal :: "world \<Rightarrow> manager \<Rightarrow> world \<times> manager" where
  "closePortal w s = stopPortal w s"

definition setFallbackPolicy :: "FallbackPolicy \<Rightarrow> manager \<Rightarrow> manager" where
  "setFallbackPolicy p s = s\<lparr>fallbackPolicy := p\<rparr>"

definition setSmartRetries :: "u8 \<Rightarrow> u32 \<Rightarrow> manager \<Rightarrow> manager" where
  "setSmartRetries maxRetries windowMs s =
     s\<lparr>maxFailRetries := maxRetries, failWindowMs := windowMs\<rparr>"

definition enableButtonPortal :: "bool \<Rightarrow> manager \<Rightarrow> manager" where
  "enableButtonPortal enable s = s\<lparr>allowButtonPortal := enable\<rparr>"

definition setAutoReconnect :: "bool \<Rightarrow> manager \<Rightarrow> manager" where
  "setAutoReconnect habilitado s = s\<lparr>autoReconnect := habilitado\<rparr>"

definition setReconnectBackoffMs :: "u32 \<Rightarrow> manager \<Rightarrow> manager" where
  "setReconnectBackoffMs ms s = s\<lparr>reconnectBackoffMs := (if ms < 1000 then 1000 else ms)\<rparr>"

definition setReconnectAttemptMs :: "u32 \<Rightarrow> manager \<Rightarrow> manager" where
  "setReconnectAttemptMs ms s = s\<lparr>reconnectAttemptMs := (if ms < 1000 then 1000 else ms)\<rparr>"

definition setExternalApActive :: "bool \<Rightarrow> manager \<Rightarrow> manager" where
  "setExternalApActive active s = s\<lparr>externalApActive := active\<rparr>"

text \<open>
  \<^verbatim>\<open>setProtectedJsons\<close>: a null or empty name is skipped (both are the empty string
  here), the others get a leading slash.
\<close>

definition setProtectedJsons :: "string list \<Rightarrow> manager \<Rightarrow> manager" where
  "setProtectedJsons names s =
     s\<lparr>protectedExact :=
         map (\<lambda>n. if hd n = CHR ''/'' then n else CHR ''/'' # n) (filter (\<lambda>n. n \<noteq> []) names)\<rparr>"

subsection \<open>The public interface as one step function\<close>

text \<open>
  Every public member function that can write a member of the class, as one value of
  \<open>api_call\<close>. The \<^verbatim>\<open>const\<close> members and the getters that write nothing
  (\<^verbatim>\<open>isPortalActive\<close>, \<^verbatim>\<open>tieneCredenciales\<close>, \<^verbatim>\<open>isExternalApActive\<close>,
  \<^verbatim>\<open>getSignalStrength\<close>, \<^verbatim>\<open>getTimestamp\<close>, \<^verbatim>\<open>hayInternet\<close>) are left out.
  \<open>exec\<close> is \<open>None\<close> when the call never returns.
\<close>

datatype api_call =
    Begin
  | Run
  | Update
  | SetHtmlPathPrefix string
  | SetHostname string
  | SetAPCredentials string string
  | SetCaptivePortal bool
  | SetPortalTimeout u32
  | SetAPClientCheck bool
  | SetWebClientCheck bool
  | OpenPortal
  | ClosePortal
  | SetFallbackPolicy FallbackPolicy
  | SetSmartRetries u8 u32
  | EnableButtonPortal bool
  | SetAutoReconnect bool
  | IsConnected
  | ConnectToWiFi
  | ReintentarConexionSiNecesario
  | ScanRedDetectada
  | ForzarReconexion
  | SetLedAuto bool
  | SetLedPatternManual LedPattern
  | SetProtectedJsons "string list"
  | SetReconnectBackoffMs u32
  | SetReconnectAttemptMs u32
  | SetExternalApActive bool

definition ret :: "world \<times> manager \<Rightarrow> outcome option" where
  "ret ws = (case ws of (w, s) \<Rightarrow> Some (Returned w s))"

fun exec :: "env \<Rightarrow> api_call \<Rightarrow> world \<Rightarrow> manager \<Rightarrow> outcome option" where
  "exec e Begin w s = ret (w, begin_mgr e w s)"
| "exec e Run w s = Some (run e w s)"
| "exec e Update w s = ret (update e w s)"
| "exec e (SetHtmlPathPrefix p) w s = ret (w, setHtmlPathPrefix p s)"
| "exec e (SetHostname h) w s = ret (w, setHostname h s)"
| "exec e (SetAPCredentials a b) w s = ret (w, setAPCredentials a b s)"
| "exec e (SetCaptivePortal b) w s = ret (w, setCaptivePortal b s)"
| "exec e (SetPortalTimeout n) w s = ret (w, setPortalTimeout n s)"
| "exec e (SetAPClientCheck b) w s = ret (w, setAPClientCheck b s)"
| "exec e (SetWebClientCheck b) w s = ret (w, setWebClientCheck b s)"
| "exec e OpenPortal w s = ret (openPortal w s)"
| "exec e ClosePortal w s = ret (closePortal w s)"
| "exec e (SetFallbackPolicy p) w s = ret (w, setFallbackPolicy p s)"
| "exec e (SetSmartRetries n m) w s = ret (w, setSmartRetries n m s)"
| "exec e (EnableButtonPortal b) w s = ret (w, enableButtonPortal b s)"
| "exec e (SetAutoReconnect b) w s = ret (w, setAutoReconnect b s)"
| "exec e IsConnected w s = ret (w, isConnected e w s)"
| "exec e ConnectToWiFi w s = (case connectToWiFi e w s of (w1, s1, ok) \<Rightarrow> ret (w1, s1))"
| "exec e ReintentarConexionSiNecesario w s =
     (case reintentarConexionSiNecesario e w s of None \<Rightarrow> None | Some ws \<Rightarrow> ret ws)"
| "exec e ScanRedDetectada w s = (case scanRedDetectada e w s of (w1, s1, found) \<Rightarrow> ret (w1, s1))"
| "exec e ForzarReconexion w s = ret (forzarReconexion w s)"
| "exec e (SetLedAuto b) w s = ret (w, setLedAuto w b s)"
| "exec e (SetLedPatternManual p) w s = ret (w, setLedPatternManual w p s)"
| "exec e (SetProtectedJsons ns) w s = ret (w, setProtectedJsons ns s)"
| "exec e (SetReconnectBackoffMs ms) w s = ret (w, setReconnectBackoffMs ms s)"
| "exec e (SetReconnectAttemptMs ms) w s = ret (w, setReconnectAttemptMs ms s)"
| "exec e (SetExternalApActive b) w s = ret (w, setExternalApActive b s)"

subsection \<open>Definitions for the statements\<close>

text \<open>
  \<open>ledFrame s s'\<close>: the manager \<open>s'\<close> differs from \<open>s\<close> in the five LED members at
  most. The LED functions change nothing else, which is how the theorems below carry
  the other members across them.
\<close>

definition ledFrame :: "manager \<Rightarrow> manager \<Rightarrow> bool" where
  "ledFrame s s' \<longleftrightarrow>
     s' = s\<lparr>ledAuto := ledAuto s', ledPat := ledPat s', ledOut := ledOut s',
            ledStep := ledStep s', ledT0 := ledT0 s'\<rparr>"

text \<open>
  The host's \<^verbatim>\<open>loop()\<close>: \<open>ticks e ts\<close> calls \<^verbatim>\<open>update()\<close> at the uptimes \<open>ts\<close>, and
  \<open>reconnectTicks e ts\<close> calls \<^verbatim>\<open>reintentarConexionSiNecesario()\<close> at the uptimes
  \<open>ts\<close>; nothing else touches the manager in between.
\<close>

fun ticks :: "env \<Rightarrow> nat list \<Rightarrow> world \<Rightarrow> manager \<Rightarrow> world \<times> manager" where
  "ticks e [] w s = (w, s)"
| "ticks e (t # ts) w s = (case update e (w\<lparr>uptime := t\<rparr>) s of (w1, s1) \<Rightarrow> ticks e ts w1 s1)"

fun reconnectTicks :: "env \<Rightarrow> nat list \<Rightarrow> world \<Rightarrow> manager \<Rightarrow> (world \<times> manager) option" where
  "reconnectTicks e [] w s = Some (w, s)"
| "reconnectTicks e (t # ts) w s =
     (case reintentarConexionSiNecesario e (w\<lparr>uptime := t\<rparr>) s of
        None \<Rightarrow> None
      | Some (w1, s1) \<Rightarrow> reconnectTicks e ts w1 s1)"

text \<open>The local \<^verbatim>\<open>base\<close> of \<^verbatim>\<open>portalHasTimedOut\<close>.\<close>

definition timeoutBase :: "manager \<Rightarrow> u32" where
  "timeoutBase s = (if webClientCheck s then lastHttpAccess s else portalStart s)"

text \<open>A connection attempt is a \<^verbatim>\<open>WiFi.begin\<close>; \<open>attempts\<close> counts them in the trace.\<close>

fun isWiFiBegin :: "event \<Rightarrow> bool" where
  "isWiFiBegin (WiFiBegin a b) = True"
| "isWiFiBegin ev = False"

definition attempts :: "world \<Rightarrow> nat" where
  "attempts w = length (filter isWiFiBegin (events w))"

text \<open>The world after the two radio calls that start an attempt of the driver.\<close>

definition attemptWorld :: "world \<Rightarrow> manager \<Rightarrow> world" where
  "attemptWorld w s =
     emit (WiFiBegin (ssid s) (password s))
       (emit (WiFiMode (if portalActive s \<or> externalApActive s then WIFI_AP_STA else WIFI_STA)) w)"

text \<open>The two reconnection settings that \<^verbatim>\<open>setReconnectBackoffMs\<close> and
  \<^verbatim>\<open>setReconnectAttemptMs\<close> write.\<close>

definition reconnectCfg :: "manager \<Rightarrow> u32 \<times> u32" where
  "reconnectCfg s = (reconnectBackoffMs s, reconnectAttemptMs s)"

text \<open>
  Concrete inputs: an environment where nothing happens (the button is up, the link is
  down, no station, no file, no overrun), the world at boot, and a manager with a
  credential under \<^verbatim>\<open>SMART_RETRIES\<close> (3 failures, 60 s window: the defaults).
\<close>

definition quietEnv :: env where
  "quietEnv = \<lparr> buttonLow = (\<lambda>t. False), linkUp = (\<lambda>t. False), stationNum = (\<lambda>t. 0),
      wifiJson = (\<lambda>t. Missing), fsMounts = (\<lambda>t. True), clockSet = (\<lambda>t. False),
      scanSSIDs = (\<lambda>t. []), overrun = (\<lambda>t. 0) \<rparr>"

definition world0 :: world where
  "world0 = \<lparr>uptime = 0, events = []\<rparr>"

definition smartMgr :: manager where
  "smartMgr = initial\<lparr>ssid := ''home'', password := ''secret'', fallbackPolicy := SMART_RETRIES\<rparr>"

text \<open>
  More concrete inputs. In \<open>holdEnv d t j\<close> the button is down from boot until the
  uptime \<open>d\<close>, and every delay overruns by 255 ms but the one that starts at the uptime
  \<open>t\<close>, which overruns by \<open>j\<close>: this puts a reading of the button at any chosen
  millisecond. \<open>armed b\<close> is the manager as the hold loop of \<^verbatim>\<open>run()\<close> finds it at
  boot. In \<open>bootEnv\<close> nothing happens and every delay overruns by 255 ms. \<open>credMgr\<close>
  holds a credential under the default policy.
\<close>

definition holdEnv :: "nat \<Rightarrow> nat \<Rightarrow> u8 \<Rightarrow> env" where
  "holdEnv d t j = quietEnv\<lparr>buttonLow := (\<lambda>x. x < d), overrun := (\<lambda>x. if x = t then j else 255)\<rparr>"

definition armed :: "bool \<Rightarrow> manager" where
  "armed b = ledSet world0 LED_OFF (ledSet world0 BLINK_SLOW (initial\<lparr>allowButtonPortal := b\<rparr>))"

definition bootEnv :: env where
  "bootEnv = quietEnv\<lparr>overrun := (\<lambda>x. 255)\<rparr>"

definition credMgr :: manager where
  "credMgr = initial\<lparr>ssid := ''home'', password := ''secret''\<rparr>"

text \<open>
  Three more environments. In \<open>stationEnv d\<close> one station is attached to the access
  point until the uptime \<open>d\<close> and sends no request. In \<open>pollEnv d\<close> the button is down
  from boot until the uptime \<open>d\<close> and every delay lasts exactly as long as asked. In
  \<open>flapEnv\<close> the link is down but from 45 s to 55 s of uptime. \<open>usageMgr\<close> is the
  configuration of the usage example in \<^verbatim>\<open>AyresWiFiManager.h\<close>: a portal timeout of
  300 s with the station check and the web-request check both on.
\<close>

definition stationEnv :: "nat \<Rightarrow> env" where
  "stationEnv d = quietEnv\<lparr>stationNum := (\<lambda>t. if t < d then 1 else 0)\<rparr>"

definition pollEnv :: "nat \<Rightarrow> env" where
  "pollEnv d = quietEnv\<lparr>buttonLow := (\<lambda>x. x < d)\<rparr>"

definition flapEnv :: env where
  "flapEnv = quietEnv\<lparr>linkUp := (\<lambda>t. 45000 \<le> t \<and> t < 55000)\<rparr>"

definition usageMgr :: manager where
  "usageMgr = setWebClientCheck True (setAPClientCheck True (setPortalTimeout 300 initial))"

section \<open>Lemmas\<close>

declare armWait.simps [simp del] holdLoop.simps [simp del] connectWait.simps [simp del]

lemma ledFrame_refl: "ledFrame s s"
  by (simp add: ledFrame_def)

lemma ledFrame_trans: "ledFrame s s' \<Longrightarrow> ledFrame s' s'' \<Longrightarrow> ledFrame s s''"
  unfolding ledFrame_def
  by (cases s; cases s'; cases s'') simp

lemma ledFrame_ledSet: "ledFrame s (ledSet w p s)"
  by (simp add: ledFrame_def ledSet_def)

lemma ledFrame_ledWrite: "ledFrame s (ledWrite v s)"
  by (simp add: ledFrame_def ledWrite_def)

lemma ledFrame_setLedAuto: "ledFrame s (setLedAuto w b s)"
  by (simp add: ledFrame_def setLedAuto_def ledSet_def Let_def)

lemma ledFrame_setLedPatternManual: "ledFrame s (setLedPatternManual w p s)"
  by (simp add: ledFrame_def setLedPatternManual_def ledSet_def)

lemma ledFrame_ledAutoUpdate: "ledFrame s (ledAutoUpdate e w s)"
  by (simp add: ledFrame_def ledAutoUpdate_def ledSet_def Let_def)

lemma ledFrame_ledTask: "ledFrame s (ledTask w s)"
  by (simp add: ledFrame_def ledTask_def ledWrite_def Let_def split: LedPattern.split)

lemma ledFrame_fields:
  assumes "ledFrame s s'"
  shows "portalActive s' = portalActive s"
    and "portalTimeoutMs s' = portalTimeoutMs s"
    and "apClientCheck s' = apClientCheck s"
    and "webClientCheck s' = webClientCheck s"
    and "portalStart s' = portalStart s"
    and "lastHttpAccess s' = lastHttpAccess s"
    and "reconnectBackoffMs s' = reconnectBackoffMs s"
    and "reconnectAttemptMs s' = reconnectAttemptMs s"
    and "allowButtonPortal s' = allowButtonPortal s"
  using assms unfolding ledFrame_def by (cases s; cases s'; simp)+

lemma ledFrame_more:
  assumes "ledFrame s s'"
  shows "fallbackPolicy s' = fallbackPolicy s"
    and "ssid s' = ssid s"
    and "password s' = password s"
  using assms unfolding ledFrame_def by (cases s; cases s'; simp)+

lemma ledFrame_update_led: "ledFrame s (ledTask w (ledAutoUpdate e w s))"
  by (rule ledFrame_trans [OF ledFrame_ledAutoUpdate ledFrame_ledTask])

lemma ledFrame_timeoutBase: "ledFrame s s' \<Longrightarrow> timeoutBase s' = timeoutBase s"
  by (simp add: timeoutBase_def ledFrame_fields)

lemma millis_emit [simp]: "millis (emit ev w) = millis w"
  by (simp add: millis_def emit_def)

lemma uptime_emit [simp]: "uptime (emit ev w) = uptime w"
  by (simp add: emit_def)

lemma events_emit [simp]: "events (emit ev w) = events w @ [ev]"
  by (simp add: emit_def)

lemma events_delay [simp]: "events (delay e n w) = events w"
  by (simp add: delay_def)

lemma uptime_delay: "uptime w \<le> uptime (delay e n w)"
  by (simp add: delay_def)

lemma attempts_delay [simp]: "attempts (delay e n w) = attempts w"
  by (simp add: attempts_def)

lemma attempts_emit [simp]:
  "attempts (emit ev w) = (if isWiFiBegin ev then Suc (attempts w) else attempts w)"
  by (simp add: attempts_def)

lemma attempts_uptime [simp]: "attempts (w\<lparr>uptime := t\<rparr>) = attempts w"
  by (simp add: attempts_def)

lemma elapsed_of_nat:
  assumes "tb \<le> t"
  shows "unat (of_nat t - of_nat tb :: u32) = (t - tb) mod 2 ^ 32"
proof -
  have "(of_nat t - of_nat tb :: u32) = of_nat (t - tb)"
    using assms by simp
  then show ?thesis by (simp add: unat_of_nat)
qed

lemma millis_later:
  assumes "t1 \<le> t2" "t2 - t1 < unat (b :: u32)"
  shows "(of_nat t2 :: u32) - of_nat t1 < b"
proof -
  have "unat (of_nat t2 - of_nat t1 :: u32) = (t2 - t1) mod 2 ^ 32"
    using assms(1) by (rule elapsed_of_nat)
  also have "\<dots> \<le> t2 - t1" by simp
  finally show ?thesis using assms(2) by (simp add: word_less_nat_alt)
qed

lemma startPortal_active: "portalActive s \<Longrightarrow> startPortal w s = (w, s)"
  by (simp add: startPortal_def)

lemma startPortal_opens:
  "portalActive (snd (startPortal w s))"
  by (simp add: startPortal_def startDNS_def stopDNS_def ledSet_def Let_def split: prod.split)

lemma startPortal_core:
  "portalActive (snd (startPortal w s))
   \<and> fallbackPolicy (snd (startPortal w s)) = fallbackPolicy s"
  by (simp add: startPortal_def startDNS_def stopDNS_def ledSet_def Let_def split: prod.split)

lemma startPortal_frame:
  "attempts (fst (startPortal w s)) = attempts w
   \<and> uptime (fst (startPortal w s)) = uptime w
   \<and> ultimoIntentoWiFi (snd (startPortal w s)) = ultimoIntentoWiFi s
   \<and> reconnectBackoffMs (snd (startPortal w s)) = reconnectBackoffMs s
   \<and> autoReconnect (snd (startPortal w s)) = autoReconnect s"
  by (simp add: startPortal_def startDNS_def stopDNS_def setupAP_def ledSet_def Let_def
        split: prod.split)

lemma stopPortal_inactive: "\<not> portalActive (snd (stopPortal w s))"
  by (simp add: stopPortal_def stopDNS_def Let_def split: prod.split)

lemma update_inactive:
  assumes "\<not> portalActive s"
  shows "\<not> portalActive (snd (update e w s))"
  using assms ledFrame_fields(1) [OF ledFrame_update_led [of s w e]]
  by (simp add: update_def Let_def)

lemma update_client:
  assumes "portalActive s" "apClientCheck s" "0 < stationNum e (uptime w)"
  shows "update e w s =
    (w, (ledTask w (ledAutoUpdate e w s))
          \<lparr>portalStart := (if portalTimeoutMs s = 0 then portalStart s else millis w)\<rparr>)"
proof -
  let ?s1 = "ledTask w (ledAutoUpdate e w s)"
  note f = ledFrame_fields [OF ledFrame_update_led [of s w e]]
  have "portalHasTimedOut e w ?s1 =
        (False, ?s1\<lparr>portalStart := (if portalTimeoutMs s = 0 then portalStart s else millis w)\<rparr>)"
    using assms f by (simp add: portalHasTimedOut_def softAPStationCount_def)
  then show ?thesis using assms f by (simp add: update_def Let_def)
qed

lemma update_quiet:
  assumes "portalActive s" "\<not> (apClientCheck s \<and> 0 < stationNum e (uptime w))"
  shows "update e w s =
    (if portalTimeoutMs s \<noteq> 0 \<and> millis w - timeoutBase s > portalTimeoutMs s
     then stopPortal w (ledTask w (ledAutoUpdate e w s))
     else (w, ledTask w (ledAutoUpdate e w s)))"
proof -
  let ?s1 = "ledTask w (ledAutoUpdate e w s)"
  note f = ledFrame_fields [OF ledFrame_update_led [of s w e]]
  have "portalHasTimedOut e w ?s1 =
        (portalTimeoutMs s \<noteq> 0 \<and> millis w - timeoutBase s > portalTimeoutMs s, ?s1)"
    using assms f by (auto simp: portalHasTimedOut_def softAPStationCount_def timeoutBase_def Let_def)
  then show ?thesis using assms f by (simp add: update_def Let_def)
qed

lemma ticks_Cons:
  "ticks e (t # ts) w s =
     ticks e ts (fst (update e (w\<lparr>uptime := t\<rparr>) s)) (snd (update e (w\<lparr>uptime := t\<rparr>) s))"
  by (simp split: prod.split)

lemma ticks_inactive: "\<not> portalActive s \<Longrightarrow> \<not> portalActive (snd (ticks e ts w s))"
proof (induction ts arbitrary: w s)
  case Nil
  then show ?case by simp
next
  case (Cons t ts)
  have "\<not> portalActive (snd (update e (w\<lparr>uptime := t\<rparr>) s))"
    using Cons.prems by (rule update_inactive)
  then show ?case
    unfolding ticks_Cons by (rule Cons.IH)
qed

lemma ticks_quiet:
  assumes "portalActive s"
      and "\<forall>t\<in>set ts. \<not> (apClientCheck s \<and> 0 < stationNum e t)"
  shows "portalActive (snd (ticks e ts w s)) \<longleftrightarrow>
         portalTimeoutMs s = 0 \<or> (\<forall>t\<in>set ts. \<not> of_nat t - timeoutBase s > portalTimeoutMs s)"
  using assms
proof (induction ts arbitrary: w s)
  case Nil
  then show ?case by simp
next
  case (Cons t ts)
  let ?w = "w\<lparr>uptime := t\<rparr>"
  let ?s1 = "ledTask ?w (ledAutoUpdate e ?w s)"
  have fr: "ledFrame s ?s1" by (rule ledFrame_update_led)
  note f = ledFrame_fields [OF fr] ledFrame_timeoutBase [OF fr]
  have quiet: "\<not> (apClientCheck s \<and> 0 < stationNum e (uptime ?w))"
    using Cons.prems(2) by simp
  have m: "millis ?w = of_nat t" by (simp add: millis_def)
  show ?case
  proof (cases "portalTimeoutMs s \<noteq> 0 \<and> of_nat t - timeoutBase s > portalTimeoutMs s")
    case True
    then have "update e ?w s = stopPortal ?w ?s1"
      using update_quiet [OF Cons.prems(1) quiet] m by simp
    then have "\<not> portalActive (snd (update e ?w s))"
      by (simp add: stopPortal_inactive)
    then have "\<not> portalActive (snd (ticks e (t # ts) w s))"
      unfolding ticks_Cons by (rule ticks_inactive)
    with True show ?thesis by auto
  next
    case False
    then have u: "update e ?w s = (?w, ?s1)"
      using update_quiet [OF Cons.prems(1) quiet] m by auto
    have "portalActive (snd (ticks e ts ?w ?s1)) \<longleftrightarrow>
         portalTimeoutMs ?s1 = 0 \<or> (\<forall>t\<in>set ts. \<not> of_nat t - timeoutBase ?s1 > portalTimeoutMs ?s1)"
      using Cons.prems f by (intro Cons.IH) simp_all
    with False u f show ?thesis by (auto simp del: ticks.simps simp add: ticks_Cons)
  qed
qed

lemma ntpWait_frame: "events (ntpWait e j w) = events w \<and> uptime w \<le> uptime (ntpWait e j w)"
proof (induction j arbitrary: w)
  case 0
  then show ?case by simp
next
  case (Suc j)
  show ?case
    using Suc.IH [of "delay e 200 w"] uptime_delay [of w e 200] by auto
qed

lemma sincronizar_frame:
  "attempts (sincronizarHoraNTP e w) = attempts w \<and> uptime w \<le> uptime (sincronizarHoraNTP e w)"
  using ntpWait_frame [of e 20 "emit ConfigTime w"]
  by (simp add: sincronizarHoraNTP_def attempts_def)

lemma reconnectWait_frame:
  assumes "reconnectWait e t0 lim w = Some r"
  shows "events (fst r) = events w \<and> uptime w \<le> uptime (fst r)"
  using assms
proof (induct e t0 lim w r rule: reconnectWait.raw_induct [rotated 1, consumes 1])
  case (1 rw e t0 lim w r)
  show ?case
  proof (cases "millis w - t0 < lim \<and> \<not> linkUp e (uptime w)")
    case True
    with 1(2) have "rw e t0 lim (delay e 250 w) = Some r" by simp
    from 1(1) [OF this] uptime_delay [of w e 250] show ?thesis by simp
  next
    case False
    with 1(2) show ?thesis by (auto split: if_splits)
  qed
qed

lemma smartRetries_frame:
  "attempts (fst (smartRetries w s)) = attempts w
   \<and> uptime (fst (smartRetries w s)) = uptime w
   \<and> ultimoIntentoWiFi (snd (smartRetries w s)) = ultimoIntentoWiFi s
   \<and> reconnectBackoffMs (snd (smartRetries w s)) = reconnectBackoffMs s
   \<and> autoReconnect (snd (smartRetries w s)) = autoReconnect s"
  by (simp add: smartRetries_def Let_def case_prod_beta startPortal_frame)

text \<open>The driver, one branch at a time.\<close>

lemma reintentar_disabled:
  "\<not> autoReconnect s \<Longrightarrow> reintentarConexionSiNecesario e w s = Some (w, s)"
  by (simp add: reintentarConexionSiNecesario_def)

lemma reintentar_connected:
  "autoReconnect s \<Longrightarrow> linkUp e (uptime w) \<Longrightarrow>
   reintentarConexionSiNecesario e w s = Some (w, s\<lparr>connected := True\<rparr>)"
  by (simp add: reintentarConexionSiNecesario_def)

lemma reintentar_backoff:
  "autoReconnect s \<Longrightarrow> \<not> linkUp e (uptime w) \<Longrightarrow>
   millis w - ultimoIntentoWiFi s < reconnectBackoffMs s \<Longrightarrow>
   reintentarConexionSiNecesario e w s = Some (w, s\<lparr>connected := False\<rparr>)"
  by (simp add: reintentarConexionSiNecesario_def Let_def)

lemma reintentar_no_credential:
  "autoReconnect s \<Longrightarrow> \<not> linkUp e (uptime w) \<Longrightarrow>
   \<not> millis w - ultimoIntentoWiFi s < reconnectBackoffMs s \<Longrightarrow>
   ssid s = [] \<or> password s = [] \<Longrightarrow>
   reintentarConexionSiNecesario e w s =
     Some (w, s\<lparr>connected := False, ultimoIntentoWiFi := millis w\<rparr>)"
  by (auto simp add: reintentarConexionSiNecesario_def Let_def)

lemma reintentar_attempt:
  assumes "autoReconnect s" "\<not> linkUp e (uptime w)"
      and "\<not> millis w - ultimoIntentoWiFi s < reconnectBackoffMs s"
      and "ssid s \<noteq> []" "password s \<noteq> []"
  shows "reintentarConexionSiNecesario e w s =
     (case reconnectWait e (millis w) (reconnectAttemptMs s) (attemptWorld w s) of
        None \<Rightarrow> None
      | Some (w3, True) \<Rightarrow>
          Some (sincronizarHoraNTP e w3,
                s\<lparr>connected := True, ultimoIntentoWiFi := millis w,
                  failCount := 0, failWindowStart := 0\<rparr>)
      | Some (w3, False) \<Rightarrow>
          if fallbackPolicy s = SMART_RETRIES
          then Some (smartRetries w3 (s\<lparr>connected := False, ultimoIntentoWiFi := millis w\<rparr>))
          else Some (w3, s\<lparr>connected := False, ultimoIntentoWiFi := millis w\<rparr>))"
  using assms
  by (simp add: reintentarConexionSiNecesario_def Let_def attemptWorld_def
        split: option.split prod.split bool.split)

lemma attempts_attemptWorld: "attempts (attemptWorld w s) = Suc (attempts w)"
  by (simp add: attemptWorld_def)

lemma uptime_attemptWorld: "uptime (attemptWorld w s) = uptime w"
  by (simp add: attemptWorld_def)

text \<open>
  One call of the driver: time does not go back, the reconnection settings stay, and
  at most one attempt is issued; an issued attempt stamps the time of the call.
\<close>

lemma reintentar_call:
  assumes "reintentarConexionSiNecesario e w s = Some (w', s')"
  shows "uptime w \<le> uptime w'
       \<and> reconnectBackoffMs s' = reconnectBackoffMs s
       \<and> autoReconnect s' = autoReconnect s
       \<and> (attempts w' = attempts w
          \<or> attempts w' = Suc (attempts w) \<and> ultimoIntentoWiFi s' = millis w \<and> autoReconnect s)"
proof (cases "autoReconnect s")
  case False
  with assms show ?thesis by (simp add: reintentar_disabled)
next
  case ar: True
  show ?thesis
  proof (cases "linkUp e (uptime w)")
    case True
    with ar assms show ?thesis by (auto simp add: reintentar_connected)
  next
    case down: False
    show ?thesis
    proof (cases "millis w - ultimoIntentoWiFi s < reconnectBackoffMs s")
      case True
      with ar down assms show ?thesis by (auto simp add: reintentar_backoff)
    next
      case past: False
      show ?thesis
      proof (cases "ssid s = [] \<or> password s = []")
        case True
        with ar down past assms show ?thesis by (auto simp add: reintentar_no_credential)
      next
        case False
        then have c: "ssid s \<noteq> []" "password s \<noteq> []" by simp_all
        note eq = reintentar_attempt [OF ar down past c]
        from assms eq obtain w3 ok
          where rw: "reconnectWait e (millis w) (reconnectAttemptMs s) (attemptWorld w s) = Some (w3, ok)"
          by (auto split: option.splits)
        from reconnectWait_frame [OF rw]
        have w3: "attempts w3 = Suc (attempts w)" "uptime w \<le> uptime w3"
          by (simp_all add: attempts_def attemptWorld_def)
        show ?thesis
        proof (cases ok)
          case True
          with assms eq rw w3 sincronizar_frame [of e w3] ar show ?thesis by auto
        next
          case False
          let ?s2 = "s\<lparr>connected := False, ultimoIntentoWiFi := millis w\<rparr>"
          show ?thesis
          proof (cases "fallbackPolicy s = SMART_RETRIES")
            case True
            with False assms eq rw have "smartRetries w3 ?s2 = (w', s')" by simp
            with smartRetries_frame [of w3 ?s2] w3 ar show ?thesis by simp
          next
            case nsm: False
            with False assms eq rw w3 ar show ?thesis by auto
          qed
        qed
      qed
    qed
  qed
qed

lemma armWait_frame:
  "armWait e t0 w s = (w', s', p) \<Longrightarrow>
     events w' = events w \<and> uptime w \<le> uptime w' \<and> ledFrame s s' \<and> (p \<longrightarrow> buttonLow e (uptime w'))"
proof (induction e t0 w s rule: armWait.induct)
  case (1 e t0 w s)
  show ?case
  proof (cases "millis w - t0 < 2000 \<and> \<not> buttonLow e (uptime w)")
    case True
    then have "armWait e t0 (delay e 10 w) (ledTask w s) = (w', s', p)"
      using "1.prems" by (subst (asm) armWait.simps) simp
    from "1.IH" [OF _ _ this] True
    have "events w' = events (delay e 10 w) \<and> uptime (delay e 10 w) \<le> uptime w'
          \<and> ledFrame (ledTask w s) s' \<and> (p \<longrightarrow> buttonLow e (uptime w'))"
      by simp
    then show ?thesis
      using uptime_delay [of w e 10] ledFrame_trans [OF ledFrame_ledTask, of w s s']
      by simp
  next
    case False
    then show ?thesis
      using "1.prems" by (subst (asm) armWait.simps) (auto simp: ledFrame_refl split: if_splits)
  qed
qed

lemma holdLoop_step:
  "buttonLow e (uptime w) \<Longrightarrow> \<not> 5000 \<le> millis w - t0 \<Longrightarrow>
   holdLoop e t0 w s =
     holdLoop e t0 (delay e 10 w)
       (ledTask w (if 2000 \<le> millis w - t0 then setLedPatternManual w BLINK_DOUBLE s
                   else setLedPatternManual w BLINK_FAST s))"
  by (subst holdLoop.simps) (simp add: Let_def)

lemma holdLoop_long:
  "buttonLow e (uptime w) \<Longrightarrow> 5000 \<le> millis w - t0 \<Longrightarrow>
   holdLoop e t0 w s = Restarted (emit Restart (delay e 900 (emit (EraseJsonInDir ''/'') w)))"
  by (subst holdLoop.simps) (simp add: eraseCredentials_def)

lemma holdLoop_release:
  "\<not> buttonLow e (uptime w) \<Longrightarrow> holdLoop e t0 w s = Returned w s"
  by (subst holdLoop.simps) simp

lemma holdLoop_frame:
  "holdLoop e t0 w s = Returned w' s' \<Longrightarrow>
     events w' = events w \<and> uptime w \<le> uptime w' \<and> ledFrame s s' \<and> \<not> buttonLow e (uptime w')"
proof (induction e t0 w s rule: holdLoop.induct)
  case (1 e t0 w s)
  show ?case
  proof (cases "buttonLow e (uptime w)")
    case False
    with "1.prems" show ?thesis by (simp add: holdLoop_release ledFrame_refl)
  next
    case True
    show ?thesis
    proof (cases "5000 \<le> millis w - t0")
      case long: True
      with True "1.prems" show ?thesis by (simp add: holdLoop_long)
    next
      case False
      let ?s1 = "if 2000 \<le> millis w - t0 then setLedPatternManual w BLINK_DOUBLE s
                 else setLedPatternManual w BLINK_FAST s"
      have fr: "ledFrame s (ledTask w ?s1)"
        by (rule ledFrame_trans [OF _ ledFrame_ledTask]) (simp add: ledFrame_setLedPatternManual)
      have "holdLoop e t0 (delay e 10 w) (ledTask w ?s1) = Returned w' s'"
        using "1.prems" holdLoop_step [OF True False, of s] by simp
      from "1.IH" [OF True False refl this]
      show ?thesis
        using uptime_delay [of w e 10] ledFrame_trans [OF fr, of s'] by simp
    qed
  qed
qed

lemma holdLoop_restart:
  "holdLoop e t0 w s = Restarted w' \<Longrightarrow>
     events w' = events w @ [EraseJsonInDir ''/'', Restart]"
proof (induction e t0 w s rule: holdLoop.induct)
  case (1 e t0 w s)
  show ?case
  proof (cases "buttonLow e (uptime w)")
    case False
    with "1.prems" show ?thesis by (simp add: holdLoop_release)
  next
    case True
    show ?thesis
    proof (cases "5000 \<le> millis w - t0")
      case long: True
      with True "1.prems" show ?thesis by (auto simp add: holdLoop_long)
    next
      case False
      let ?s1 = "if 2000 \<le> millis w - t0 then setLedPatternManual w BLINK_DOUBLE s
                 else setLedPatternManual w BLINK_FAST s"
      have "holdLoop e t0 (delay e 10 w) (ledTask w ?s1) = Restarted w'"
        using "1.prems" holdLoop_step [OF True False, of s] by simp
      from "1.IH" [OF True False refl this]
      show ?thesis by simp
    qed
  qed
qed

lemma connectToWiFi_frame:
  "connectToWiFi e w s = (w', s', ok) \<Longrightarrow>
     s' = (if tieneCredenciales e w s then s\<lparr>connected := ok\<rparr> else s)
     \<and> (ok \<longrightarrow> tieneCredenciales e w s)"
  by (auto simp: connectToWiFi_def Let_def split: if_splits prod.splits bool.splits)

lemma runGesture_none_frame:
  assumes "runGesture e w s = GestureNone w1 s1"
  shows "ledFrame s s1 \<and> events w1 = events w"
proof -
  obtain wa sa p where arm: "armWait e (millis w) w (ledSet w BLINK_SLOW s) = (wa, sa, p)"
    by (metis prod_cases3)
  from armWait_frame [OF arm]
  have fa: "ledFrame (ledSet w BLINK_SLOW s) sa" "events wa = events w" by simp_all
  have f2: "ledFrame s (ledSet wa LED_OFF sa)"
    by (rule ledFrame_trans [OF ledFrame_ledSet ledFrame_trans [OF fa(1) ledFrame_ledSet]])
  show ?thesis
  proof (cases p)
    case False
    with assms arm f2 fa show ?thesis by (auto simp add: runGesture_def Let_def)
  next
    case True
    show ?thesis
    proof (cases "holdLoop e (millis wa) wa (ledSet wa LED_OFF sa)")
      case (Restarted w2)
      with True assms arm show ?thesis by (auto simp add: runGesture_def Let_def)
    next
      case (Returned w2 s3)
      from holdLoop_frame [OF Returned]
      have fh: "ledFrame (ledSet wa LED_OFF sa) s3" "events w2 = events wa" by simp_all
      have "w1 = w2 \<and> s1 = setLedAuto w2 True s3"
        using True assms arm Returned
        by (auto simp add: runGesture_def Let_def split: if_splits prod.splits)
      then show ?thesis
        using ledFrame_trans [OF f2 ledFrame_trans [OF fh(1) ledFrame_setLedAuto]] fh fa
        by simp
    qed
  qed
qed

lemma cfg_ledFrame: "ledFrame s s' \<Longrightarrow> reconnectCfg s' = reconnectCfg s"
  by (simp add: reconnectCfg_def ledFrame_fields)

lemma cfg_startPortal: "reconnectCfg (snd (startPortal w s)) = reconnectCfg s"
  by (simp add: reconnectCfg_def startPortal_def startDNS_def stopDNS_def ledSet_def Let_def
        split: prod.split)

lemma cfg_stopPortal: "reconnectCfg (snd (stopPortal w s)) = reconnectCfg s"
  by (simp add: reconnectCfg_def stopPortal_def stopDNS_def Let_def split: prod.split)

lemma cfg_portalHasTimedOut: "reconnectCfg (snd (portalHasTimedOut e w s)) = reconnectCfg s"
  by (simp add: reconnectCfg_def portalHasTimedOut_def Let_def)

lemma cfg_update: "reconnectCfg (snd (update e w s)) = reconnectCfg s"
proof -
  let ?s1 = "ledTask w (ledAutoUpdate e w s)"
  have 1: "reconnectCfg ?s1 = reconnectCfg s"
    by (rule cfg_ledFrame [OF ledFrame_update_led])
  obtain b s2 where p: "portalHasTimedOut e w ?s1 = (b, s2)" by (metis surj_pair)
  then have 2: "reconnectCfg s2 = reconnectCfg s"
    using cfg_portalHasTimedOut [of e w ?s1] 1 by simp
  show ?thesis
    using 1 2 p cfg_stopPortal [of w s2]
    by (cases b) (simp_all add: update_def Let_def)
qed

lemma cfg_smartRetries: "reconnectCfg (snd (smartRetries w s)) = reconnectCfg s"
  using cfg_startPortal
  by (simp add: smartRetries_def Let_def case_prod_beta) (simp add: reconnectCfg_def)

lemma cfg_reintentar:
  assumes "reintentarConexionSiNecesario e w s = Some (w', s')"
  shows "reconnectCfg s' = reconnectCfg s"
proof -
  have c: "reconnectBackoffMs sa = reconnectBackoffMs s \<and> reconnectAttemptMs sa = reconnectAttemptMs s"
    if "smartRetries w3 (s\<lparr>connected := False, ultimoIntentoWiFi := u\<rparr>) = (wa, sa)" for w3 u wa sa
    using cfg_smartRetries [of w3 "s\<lparr>connected := False, ultimoIntentoWiFi := u\<rparr>"] that
    by (simp add: reconnectCfg_def)
  show ?thesis
    using assms c
    by (auto simp add: reintentarConexionSiNecesario_def Let_def reconnectCfg_def
          split: if_splits option.splits prod.splits bool.splits)
qed

lemma cfg_connectToWiFi:
  "connectToWiFi e w s = (w', s', ok) \<Longrightarrow> reconnectCfg s' = reconnectCfg s"
  by (auto simp add: connectToWiFi_def Let_def reconnectCfg_def
        split: if_splits prod.splits bool.splits)

lemma cfg_runFallback: "reconnectCfg (snd (runFallback e w s)) = reconnectCfg s"
proof -
  obtain w1 s1 ok where c: "connectToWiFi e w s = (w1, s1, ok)" by (metis prod_cases3)
  note 1 = cfg_connectToWiFi [OF c]
  show ?thesis
    using c 1 cfg_startPortal [of w1 s1]
    by (cases ok; cases "fallbackPolicy s1")
       (simp_all add: runFallback_def Let_def ledSet_def reconnectCfg_def)
qed

lemma cfg_runGesture:
  "(runGesture e w s = GestureNone w1 s1 \<longrightarrow> reconnectCfg s1 = reconnectCfg s)
   \<and> (runGesture e w s = GesturePortal w1 s1 \<longrightarrow> reconnectCfg s1 = reconnectCfg s)"
proof (intro conjI impI)
  assume "runGesture e w s = GestureNone w1 s1"
  from runGesture_none_frame [OF this] show "reconnectCfg s1 = reconnectCfg s"
    by (simp add: cfg_ledFrame)
next
  assume g: "runGesture e w s = GesturePortal w1 s1"
  obtain wa sa p where arm: "armWait e (millis w) w (ledSet w BLINK_SLOW s) = (wa, sa, p)"
    by (metis prod_cases3)
  from armWait_frame [OF arm]
  have fa: "ledFrame (ledSet w BLINK_SLOW s) sa" by simp
  from g arm obtain w2 s3 where
    hold: "holdLoop e (millis wa) wa (ledSet wa LED_OFF sa) = Returned w2 s3"
    and sp: "startPortal w2 (setLedAuto w2 True s3) = (w1, s1)"
    by (auto simp add: runGesture_def Let_def split: if_splits outcome.splits prod.splits)
  from holdLoop_frame [OF hold]
  have fh: "ledFrame (ledSet wa LED_OFF sa) s3" by simp
  have "ledFrame s (setLedAuto w2 True s3)"
    by (rule ledFrame_trans [OF ledFrame_ledSet ledFrame_trans [OF fa
          ledFrame_trans [OF ledFrame_ledSet ledFrame_trans [OF fh ledFrame_setLedAuto]]]])
  then show "reconnectCfg s1 = reconnectCfg s"
    using cfg_startPortal [of w2 "setLedAuto w2 True s3"] sp by (simp add: cfg_ledFrame)
qed

lemma cfg_run: "run e w s = Returned w' s' \<Longrightarrow> reconnectCfg s' = reconnectCfg s"
proof -
  assume r: "run e w s = Returned w' s'"
  show ?thesis
  proof (cases "runGesture e w s")
    case (GestureRestart w1)
    with r show ?thesis by (simp add: run_def)
  next
    case (GesturePortal w1 s1)
    with r cfg_runGesture [of e w s w1 s1] show ?thesis by (simp add: run_def)
  next
    case (GestureNone w1 s1)
    with r cfg_runGesture [of e w s w1 s1] cfg_runFallback [of e w1 s1] show ?thesis
      by (auto simp add: run_def split: prod.splits)
  qed
qed

lemma cfg_exec:
  assumes "exec e c w s = Some (Returned w' s')"
  shows "((\<forall>ms. c \<noteq> SetReconnectBackoffMs ms) \<longrightarrow> reconnectBackoffMs s' = reconnectBackoffMs s)
       \<and> ((\<forall>ms. c \<noteq> SetReconnectAttemptMs ms) \<longrightarrow> reconnectAttemptMs s' = reconnectAttemptMs s)
       \<and> (1000 \<le> reconnectBackoffMs s \<longrightarrow> 1000 \<le> reconnectBackoffMs s')
       \<and> (1000 \<le> reconnectAttemptMs s \<longrightarrow> 1000 \<le> reconnectAttemptMs s')"
proof (cases c)
  case Run
  with assms cfg_run [of e w s w' s'] show ?thesis by (simp add: reconnectCfg_def)
next
  case Update
  with assms cfg_update [of e w s] show ?thesis
    by (auto simp add: reconnectCfg_def ret_def split: prod.splits)
next
  case OpenPortal
  with assms cfg_startPortal [of w s] show ?thesis
    by (auto simp add: reconnectCfg_def ret_def openPortal_def split: prod.splits)
next
  case ClosePortal
  with assms cfg_stopPortal [of w s] show ?thesis
    by (auto simp add: reconnectCfg_def ret_def closePortal_def split: prod.splits)
next
  case ConnectToWiFi
  with assms show ?thesis
    using cfg_connectToWiFi [of e w s]
    by (auto simp add: reconnectCfg_def ret_def split: prod.splits)
next
  case ReintentarConexionSiNecesario
  with assms show ?thesis
    using cfg_reintentar [of e w s]
    by (auto simp add: reconnectCfg_def ret_def split: prod.splits option.splits)
next
  case (SetReconnectBackoffMs ms)
  with assms show ?thesis
    by (auto simp add: ret_def setReconnectBackoffMs_def)
next
  case (SetReconnectAttemptMs ms)
  with assms show ?thesis
    by (auto simp add: ret_def setReconnectAttemptMs_def)
qed (use assms in \<open>auto simp add: ret_def begin_mgr_def loadCredentials_def setHtmlPathPrefix_def
      setHostname_def setAPCredentials_def setCaptivePortal_def setPortalTimeout_def
      setAPClientCheck_def setWebClientCheck_def setFallbackPolicy_def setSmartRetries_def
      enableButtonPortal_def setAutoReconnect_def isConnected_def scanRedDetectada_def
      forzarReconexion_def setLedAuto_def setLedPatternManual_def ledSet_def
      setProtectedJsons_def setExternalApActive_def Let_def
      split: wifi_json.splits if_splits prod.splits\<close>)

subsection \<open>Evaluations on the concrete inputs\<close>

lemmas eval_defs = holdEnv_def quietEnv_def world0_def armed_def
  initial_def millis_def delay_def emit_def eraseCredentials_def ledSet_def setLedAuto_def
  setLedPatternManual_def ledTask_def ledWrite_def seqDouble_def onDouble_def Let_def

lemma arm0:
  "0 < d \<Longrightarrow> armWait (holdEnv d t j) (millis world0) world0 (ledSet world0 BLINK_SLOW s)
     = (world0, ledSet world0 BLINK_SLOW s, True)"
  by (subst armWait.simps) (simp add: holdEnv_def quietEnv_def world0_def millis_def)

lemma hold1999:
  "\<exists>w2 s2. holdLoop (holdEnv 1999 1855 134) (millis world0) world0 (armed b) = Returned w2 s2
           \<and> uptime w2 = 1999"
  by (subst holdLoop.simps, simp add: eval_defs)+

lemma hold2000:
  "\<exists>w2 s2. holdLoop (holdEnv 2000 1855 135) (millis world0) world0 (armed b) = Returned w2 s2
           \<and> uptime w2 = 2000"
  by (subst holdLoop.simps, simp add: eval_defs)+

lemma hold4999:
  "\<exists>w2 s2. holdLoop (holdEnv 4999 4770 219) (millis world0) world0 (armed b) = Returned w2 s2
           \<and> uptime w2 = 4999"
  by (subst holdLoop.simps, simp add: eval_defs)+

lemma hold5000:
  "\<exists>w'. holdLoop (holdEnv 6000 4770 220) (millis world0) world0 (armed b) = Restarted w'"
  by (subst holdLoop.simps, simp add: eval_defs)+

lemmas poll_defs = pollEnv_def quietEnv_def world0_def armed_def
  initial_def millis_def delay_def emit_def eraseCredentials_def ledSet_def setLedAuto_def
  setLedPatternManual_def ledTask_def ledWrite_def seqDouble_def onDouble_def Let_def

lemma arm_poll:
  "0 < d \<Longrightarrow> armWait (pollEnv d) (millis world0) world0 (ledSet world0 BLINK_SLOW s)
     = (world0, ledSet world0 BLINK_SLOW s, True)"
  by (subst armWait.simps) (simp add: pollEnv_def quietEnv_def world0_def millis_def)

text \<open>
  Polled every 10 ms from boot, a button that is down until the uptime 5000 is read down
  for the last time at 4990 and read up at 5000: the loop ends there, with no event.
\<close>

lemma poll5000:
  "\<exists>s2. holdLoop (pollEnv 5000) (millis world0) world0 (armed b)
           = Returned \<lparr>uptime = 5000, events = []\<rparr> s2"
  by (subst holdLoop.simps, simp add: poll_defs)+

lemmas tick_defs = stationEnv_def usageMgr_def quietEnv_def world0_def initial_def
  setWebClientCheck_def setAPClientCheck_def setPortalTimeout_def
  startPortal_def startDNS_def stopDNS_def setupAP_def stopPortal_def
  update_def portalHasTimedOut_def softAPStationCount_def
  ledTask_def ledAutoUpdate_def ledSet_def ledWrite_def millis_def emit_def Let_def

lemmas boot_defs = bootEnv_def quietEnv_def world0_def initial_def millis_def delay_def
  ledSet_def ledTask_def ledWrite_def Let_def

lemma arm_none:
  "\<exists>w1 s1. armWait bootEnv (millis world0) world0
              (ledSet world0 BLINK_SLOW (initial\<lparr>fallbackPolicy := p\<rparr>)) = (w1, s1, False)"
  by (subst armWait.simps, simp add: boot_defs)+

lemma first_call_eq:
  "reintentarConexionSiNecesario quietEnv \<lparr>uptime = 20000, events = []\<rparr> credMgr
     = Some (\<lparr>uptime = 25000, events = [WiFiMode WIFI_STA, WiFiBegin ''home'' ''secret'']\<rparr>,
             credMgr\<lparr>connected := False, ultimoIntentoWiFi := 20000\<rparr>)"
  apply (simp add: reintentarConexionSiNecesario_def credMgr_def
        quietEnv_def initial_def millis_def delay_def emit_def Let_def)
  apply (subst reconnectWait.simps, simp add: millis_def delay_def)+
  done

subsection \<open>The failure window away from the wrap of the clock\<close>

lemma within_window:
  assumes "uptime w1 \<le> uptime w2" "uptime w2 - uptime w1 \<le> 60000"
  shows "\<not> millis w2 - millis w1 > 60000"
proof -
  have "unat (millis w2 - millis w1) = (uptime w2 - uptime w1) mod 2 ^ 32"
    unfolding millis_def using assms(1) by (rule elapsed_of_nat)
  also have "\<dots> \<le> uptime w2 - uptime w1" by simp
  finally have "unat (millis w2 - millis w1) \<le> 60000" using assms(2) by simp
  then show ?thesis by (simp add: word_less_nat_alt)
qed

lemma smartRetries_count:
  assumes "maxFailRetries s = 3"
  shows "smartRetries w s =
     (let reset = (failWindowStart s = 0 \<or> millis w - failWindowStart s > failWindowMs s);
          c = (if reset then 0 else failCount s) + 1;
          s2 = s\<lparr>failWindowStart := (if reset then millis w else failWindowStart s), failCount := c\<rparr>
      in if c \<ge> 3 then (fst (startPortal w s2), (snd (startPortal w s2))\<lparr>failCount := 0, failWindowStart := 0\<rparr>)
         else (w, s2))"
  using assms by (auto simp add: smartRetries_def Let_def case_prod_beta)

section \<open>The claims\<close>

subsection \<open>C8: opening the portal twice\<close>

text \<open>
  C8. Calling \<^verbatim>\<open>startPortal()\<close> again, at any later moment \<open>w2\<close> and with no close in
  between, leaves the manager that the first call produced as it is and does nothing
  to the collaborators. When the portal is already active the call changes nothing
  (\<open>portalStart\<close> and \<open>lastHttpAccess\<close> are not refreshed); otherwise the first call
  sets \<open>portalActive\<close> and records \<open>portalStart = lastHttpAccess = millis()\<close>.
\<close>

theorem startPortal_idempotent:
  "startPortal w2 (snd (startPortal w1 s)) = (w2, snd (startPortal w1 s))
   \<and> (if portalActive s then startPortal w1 s = (w1, s)
      else portalActive (snd (startPortal w1 s))
         \<and> portalStart (snd (startPortal w1 s)) = millis w1
         \<and> lastHttpAccess (snd (startPortal w1 s)) = millis w1)"
  by (simp add: startPortal_active startPortal_opens)
     (simp add: startPortal_def startDNS_def stopDNS_def setupAP_def ledSet_def Let_def split: prod.split)

subsection \<open>C4: a station on the access point and the activity window\<close>

text \<open>
  A tick of \<^verbatim>\<open>update()\<close> while the portal is active, \<open>apClientCheck\<close> is set and at
  least one station is attached never closes the portal and does nothing to the
  collaborators, whatever the elapsed time. It moves \<open>portalStart\<close> to now when a
  timeout is configured; with \<open>portalTimeoutMs = 0\<close> the guard at the top of
  \<^verbatim>\<open>portalHasTimedOut\<close> returns first and \<open>portalStart\<close> stays.
\<close>

lemma station_attached_tick:
  assumes "portalActive s" "apClientCheck s" "0 < stationNum e (uptime w)"
  shows "fst (update e w s) = w
       \<and> portalActive (snd (update e w s))
       \<and> portalStart (snd (update e w s)) =
           (if portalTimeoutMs s = 0 then portalStart s else millis w)
       \<and> lastHttpAccess (snd (update e w s)) = lastHttpAccess s"
  using assms ledFrame_fields [OF ledFrame_update_led [of s w e]]
  by (simp add: update_client)

text \<open>
  C4. The activity window is not extended. Under \<open>usageMgr\<close> (timeout 300 s, station
  check and web-request check on) the portal opens at boot; a station is attached
  until the uptime 400005 and sends no request. The ticks at 150 s, 300 s and 400 s
  find the station: the portal stays open, the collaborators see nothing, and
  \<open>portalStart\<close> is written (400000 after the third) while \<open>lastHttpAccess\<close> is still 0.
  The elapsed time is measured from \<open>lastHttpAccess\<close> when the web-request check is
  on, so the write to \<open>portalStart\<close> extends nothing: the tick at 400010, the first
  one after the station has left and 10 ms after the start time was reset, closes the
  portal, 299990 ms before the timeout counted from that reset.
\<close>

theorem client_window_not_extended:
  "(let e = stationEnv 400005;
        (w1, s1) = startPortal world0 usageMgr;
        (w2, s2) = ticks e [150000, 300000, 400000] w1 s1;
        (w3, s3) = ticks e [400010] w2 s2
    in (portalTimeoutMs s1, events w2 = events w1, portalActive s2, portalStart s2,
        lastHttpAccess s2, portalActive s3, drop (length (events w2)) (events w3)))
   = (300000, True, True, 400000, 0, False,
      [DnsStop, ServerStop, SoftAPDisconnect, WiFiMode WIFI_OFF])"
  by (simp add: tick_defs word_less_nat_alt)

text \<open>
  With the web-request check off the elapsed time is measured from \<open>portalStart\<close>, and
  the same ticks do extend the window: the portal is still open at 700000 and closes
  on the tick after, 300 s past the last tick that found the station.
\<close>

lemma client_window_web_off:
  "(let e = stationEnv 400005;
        (w1, s1) = startPortal world0 (setWebClientCheck False usageMgr);
        (w2, s2) = ticks e [150000, 300000, 400000] w1 s1;
        (w3, s3) = ticks e [400010, 700000] w2 s2;
        (w4, s4) = ticks e [700001] w3 s3
    in (portalActive s2, portalStart s2, portalActive s3, portalActive s4))
   = (True, 400000, True, False)"
  by (simp add: tick_defs word_less_nat_alt)

subsection \<open>C3: the inactivity timeout\<close>

text \<open>
  C3. The portal is open, and \<open>tb\<close> is the uptime that the timeout is measured from:
  the last HTTP access when \<open>webClientCheck\<close> is set, otherwise the portal start. The
  host ticks \<^verbatim>\<open>update()\<close> at the uptimes \<open>ts\<close>, none before \<open>tb\<close>, no request arrives
  and no station is attached on a tick (when \<open>apClientCheck\<close> is set). Then
  \<^item> with \<open>portalTimeoutMs = 0\<close> the portal is still open after all the ticks;
  \<^item> a portal found closed after the ticks was ticked strictly later than
    \<open>portalTimeoutMs\<close> after \<open>tb\<close>: it never closes before the timeout has elapsed;
  \<^item> as long as the 32-bit clock has not wrapped since \<open>tb\<close>, the portal is open after
    the ticks exactly when no tick came later than \<open>portalTimeoutMs\<close> after \<open>tb\<close>: the
    first tick past the timeout closes it.
\<close>

theorem portal_timeout_ticks:
  assumes "portalActive s"
      and "(if webClientCheck s then lastHttpAccess s else portalStart s) = of_nat tb"
      and "\<forall>t\<in>set ts. tb \<le> t"
      and "\<forall>t\<in>set ts. \<not> (apClientCheck s \<and> 0 < stationNum e t)"
  shows "(portalTimeoutMs s = 0 \<longrightarrow> portalActive (snd (ticks e ts w s)))
       \<and> (\<not> portalActive (snd (ticks e ts w s)) \<longrightarrow>
            (\<exists>t\<in>set ts. unat (portalTimeoutMs s) < t - tb))
       \<and> ((\<forall>t\<in>set ts. t - tb < 2 ^ 32) \<longrightarrow>
            (portalActive (snd (ticks e ts w s)) \<longleftrightarrow>
               portalTimeoutMs s = 0 \<or> (\<forall>t\<in>set ts. t - tb \<le> unat (portalTimeoutMs s))))"
proof -
  have tb: "timeoutBase s = of_nat tb"
    using assms(2) by (simp add: timeoutBase_def)
  note q = ticks_quiet [OF assms(1) assms(4), of w, unfolded tb]
  have le: "unat (of_nat t - of_nat tb :: u32) \<le> t - tb" if "t \<in> set ts" for t
    using that assms(3) by (simp add: elapsed_of_nat)
  have eq: "unat (of_nat t - of_nat tb :: u32) = t - tb" if "t \<in> set ts" "t - tb < 2 ^ 32" for t
    using that assms(3) by (simp add: elapsed_of_nat)
  have 1: "portalTimeoutMs s = 0 \<longrightarrow> portalActive (snd (ticks e ts w s))"
    using q by simp
  have 2: "\<not> portalActive (snd (ticks e ts w s)) \<longrightarrow>
            (\<exists>t\<in>set ts. unat (portalTimeoutMs s) < t - tb)"
  proof
    assume "\<not> portalActive (snd (ticks e ts w s))"
    then obtain t where t: "t \<in> set ts" "of_nat t - of_nat tb > portalTimeoutMs s"
      using q by auto
    then have "unat (portalTimeoutMs s) < unat (of_nat t - of_nat tb :: u32)"
      by (simp add: word_less_nat_alt)
    with le [OF t(1)] t(1) show "\<exists>t\<in>set ts. unat (portalTimeoutMs s) < t - tb"
      by (intro bexI [of _ t]) simp_all
  qed
  have 3: "(\<forall>t\<in>set ts. t - tb < 2 ^ 32) \<longrightarrow>
            (portalActive (snd (ticks e ts w s)) \<longleftrightarrow>
               portalTimeoutMs s = 0 \<or> (\<forall>t\<in>set ts. t - tb \<le> unat (portalTimeoutMs s)))"
  proof
    assume nw: "\<forall>t\<in>set ts. t - tb < 2 ^ 32"
    have "(\<not> of_nat t - of_nat tb > portalTimeoutMs s) \<longleftrightarrow> t - tb \<le> unat (portalTimeoutMs s)"
      if "t \<in> set ts" for t
      using eq [OF that] nw that by (simp add: word_less_nat_alt not_less)
    then show "portalActive (snd (ticks e ts w s)) \<longleftrightarrow>
               portalTimeoutMs s = 0 \<or> (\<forall>t\<in>set ts. t - tb \<le> unat (portalTimeoutMs s))"
      using q by auto
  qed
  from 1 2 3 show ?thesis by blast
qed

theorem portal_timeout_ticks_witness:
  "portalActive (snd (ticks quietEnv [20000, 31000] world0
      (initial\<lparr>portalActive := True, portalTimeoutMs := 30000, portalStart := 1000,
               lastHttpAccess := 1000\<rparr>)))
 \<and> \<not> portalActive (snd (ticks quietEnv [20000, 31000, 31001] world0
      (initial\<lparr>portalActive := True, portalTimeoutMs := 30000, portalStart := 1000,
               lastHttpAccess := 1000\<rparr>)))
 \<and> portalActive (snd (ticks quietEnv [20000, 31000, 31001, 4000000000] world0
      (initial\<lparr>portalActive := True, portalStart := 1000, lastHttpAccess := 1000\<rparr>)))"
  using portal_timeout_ticks [of "initial\<lparr>portalActive := True, portalTimeoutMs := 30000,
            portalStart := 1000, lastHttpAccess := 1000\<rparr>" 1000 "[20000, 31000]" quietEnv world0]
        portal_timeout_ticks [of "initial\<lparr>portalActive := True, portalTimeoutMs := 30000,
            portalStart := 1000, lastHttpAccess := 1000\<rparr>" 1000 "[20000, 31000, 31001]" quietEnv world0]
        portal_timeout_ticks [of "initial\<lparr>portalActive := True,
            portalStart := 1000, lastHttpAccess := 1000\<rparr>" 1000 "[20000, 31000, 31001, 4000000000]"
            quietEnv world0]
  by (simp add: initial_def quietEnv_def)

subsection \<open>C6: the backoff between attempts\<close>

text \<open>
  C6. Two calls of the driver, the second one requested at an uptime \<open>t2\<close> less than
  \<open>reconnectBackoffMs\<close> after the first one was requested (and after the first one
  returned), issue at most one \<^verbatim>\<open>WiFi.begin\<close> between them. And a call made while
  disconnected, with less than the backoff elapsed since the recorded start of the last
  attempt, returns at once: the world is as it was and only \<open>connected\<close> is written.
\<close>

theorem backoff_enforced:
  "(\<forall>w1' s1' w2' s2' t2.
      reintentarConexionSiNecesario e w1 s1 = Some (w1', s1') \<and>
      uptime w1' \<le> t2 \<and> t2 - uptime w1 < unat (reconnectBackoffMs s1) \<and>
      reintentarConexionSiNecesario e (w1'\<lparr>uptime := t2\<rparr>) s1' = Some (w2', s2')
      \<longrightarrow> attempts w2' \<le> attempts w1 + 1)
   \<and> (autoReconnect s \<and> \<not> linkUp e (uptime w) \<and>
        millis w - ultimoIntentoWiFi s < reconnectBackoffMs s
      \<longrightarrow> reintentarConexionSiNecesario e w s = Some (w, s\<lparr>connected := False\<rparr>))"
proof (intro conjI allI impI)
  fix w1' s1' w2' s2' t2
  assume a: "reintentarConexionSiNecesario e w1 s1 = Some (w1', s1') \<and>
      uptime w1' \<le> t2 \<and> t2 - uptime w1 < unat (reconnectBackoffMs s1) \<and>
      reintentarConexionSiNecesario e (w1'\<lparr>uptime := t2\<rparr>) s1' = Some (w2', s2')"
  let ?w2 = "w1'\<lparr>uptime := t2\<rparr>"
  from a have first: "reintentarConexionSiNecesario e w1 s1 = Some (w1', s1')"
    and second: "reintentarConexionSiNecesario e ?w2 s1' = Some (w2', s2')"
    and t2: "uptime w1' \<le> t2" "t2 - uptime w1 < unat (reconnectBackoffMs s1)"
    by simp_all
  note c1 = reintentar_call [OF first]
  note c2 = reintentar_call [OF second]
  show "attempts w2' \<le> attempts w1 + 1"
  proof (cases "attempts w1' = attempts w1")
    case True
    with c2 show ?thesis by auto
  next
    case False
    with c1 have st: "attempts w1' = Suc (attempts w1)" "ultimoIntentoWiFi s1' = millis w1"
      "autoReconnect s1'" "reconnectBackoffMs s1' = reconnectBackoffMs s1" "uptime w1 \<le> t2"
      using t2 by auto
    have "millis ?w2 - ultimoIntentoWiFi s1' < reconnectBackoffMs s1'"
      using st t2 by (simp add: millis_def millis_later)
    then have "w2' = ?w2"
      using second st reintentar_backoff [of s1' e ?w2] reintentar_connected [of s1' e ?w2]
      by (cases "linkUp e (uptime ?w2)") auto
    with st show ?thesis by simp
  qed
next
  assume "autoReconnect s \<and> \<not> linkUp e (uptime w) \<and>
        millis w - ultimoIntentoWiFi s < reconnectBackoffMs s"
  then show "reintentarConexionSiNecesario e w s = Some (w, s\<lparr>connected := False\<rparr>)"
    by (simp add: reintentar_backoff)
qed

theorem backoff_enforced_witness:
  "\<exists>w1' s1' w2' s2'.
      reintentarConexionSiNecesario quietEnv \<lparr>uptime = 20000, events = []\<rparr> credMgr = Some (w1', s1')
    \<and> uptime w1' \<le> 26000
    \<and> 26000 - uptime \<lparr>uptime = 20000, events = []\<rparr> < unat (reconnectBackoffMs credMgr)
    \<and> reintentarConexionSiNecesario quietEnv (w1'\<lparr>uptime := 26000\<rparr>) s1' = Some (w2', s2')
    \<and> attempts w1' = 1
    \<and> attempts w2' \<le> attempts \<lparr>uptime = 20000, events = []\<rparr> + 1
    \<and> w2' = w1'\<lparr>uptime := 26000\<rparr>"
proof -
  let ?w = "\<lparr>uptime = 20000, events = []\<rparr>"
  let ?w1 = "\<lparr>uptime = 25000, events = [WiFiMode WIFI_STA, WiFiBegin ''home'' ''secret'']\<rparr>"
  let ?s1 = "credMgr\<lparr>connected := False, ultimoIntentoWiFi := 20000\<rparr>"
  let ?w2 = "?w1\<lparr>uptime := 26000\<rparr>"
  note first = first_call_eq
  have a: "attempts ?w1 = 1" by (simp add: attempts_def)
  have le: "uptime ?w1 \<le> 26000" by simp
  have lt: "26000 - uptime ?w < unat (reconnectBackoffMs credMgr)"
    by (simp add: credMgr_def initial_def)
  have pre: "autoReconnect ?s1 \<and> \<not> linkUp quietEnv (uptime ?w2) \<and>
        millis ?w2 - ultimoIntentoWiFi ?s1 < reconnectBackoffMs ?s1"
    by (simp add: credMgr_def initial_def quietEnv_def millis_def)
  from backoff_enforced [of quietEnv ?w credMgr ?s1 ?w2, THEN conjunct2, rule_format, OF pre]
  have second: "reintentarConexionSiNecesario quietEnv ?w2 ?s1 = Some (?w2, ?s1\<lparr>connected := False\<rparr>)" .
  from first le lt second
  have pre1: "reintentarConexionSiNecesario quietEnv ?w credMgr = Some (?w1, ?s1) \<and>
      uptime ?w1 \<le> 26000 \<and> 26000 - uptime ?w < unat (reconnectBackoffMs credMgr) \<and>
      reintentarConexionSiNecesario quietEnv ?w2 ?s1 = Some (?w2, ?s1\<lparr>connected := False\<rparr>)"
    by (intro conjI)
  from backoff_enforced [of quietEnv ?w credMgr ?s1 ?w2, THEN conjunct1, rule_format, OF pre1]
  have bound: "attempts ?w2 \<le> attempts ?w + 1" .
  have "reintentarConexionSiNecesario quietEnv ?w credMgr = Some (?w1, ?s1)
    \<and> uptime ?w1 \<le> 26000
    \<and> 26000 - uptime ?w < unat (reconnectBackoffMs credMgr)
    \<and> reintentarConexionSiNecesario quietEnv ?w2 ?s1 = Some (?w2, ?s1\<lparr>connected := False\<rparr>)
    \<and> attempts ?w1 = 1
    \<and> attempts ?w2 \<le> attempts ?w + 1
    \<and> ?w2 = ?w2"
    using first le lt second a bound by (intro conjI refl)
  then show ?thesis by blast
qed

subsection \<open>C7: the driver while the link is up\<close>

text \<open>
  C7. The failure window survives a tick with the link up. Under \<^verbatim>\<open>SMART_RETRIES\<close>
  (threshold 3, window 60 s) with a credential, the calls of the driver at 20 s and
  35 s fail: two failures are counted, in a window that started at 25 s. The link is
  up from 45 s to 55 s, and the call at 50 s returns at line 634: the manager is the
  one before the call with \<open>connected\<close> set, the world is untouched, and the count is
  still 2. The link drops again and the call at 65 s fails. It is the only failure
  since the link was up, and it is counted as the third: the portal opens.
\<close>

theorem connected_tick_keeps_failures:
  "reintentarConexionSiNecesario flapEnv \<lparr>uptime = 50000, events = []\<rparr>
       (smartMgr\<lparr>failCount := 2, failWindowStart := 25000\<rparr>)
     = Some (\<lparr>uptime = 50000, events = []\<rparr>,
             smartMgr\<lparr>failCount := 2, failWindowStart := 25000, connected := True\<rparr>)
   \<and> map_option (\<lambda>(w, s). (events w, connected s, portalActive s, failCount s, failWindowStart s))
       (reconnectTicks flapEnv [20000, 35000, 50000] world0 smartMgr)
     = Some ([WiFiMode WIFI_STA, WiFiBegin ''home'' ''secret'',
              WiFiMode WIFI_STA, WiFiBegin ''home'' ''secret''], True, False, 2, 25000)
   \<and> map_option (\<lambda>(w, s). (events w, connected s, portalActive s, failCount s, failWindowStart s))
       (reconnectTicks flapEnv [20000, 35000, 50000, 65000] world0 smartMgr)
     = Some ([WiFiMode WIFI_STA, WiFiBegin ''home'' ''secret'',
              WiFiMode WIFI_STA, WiFiBegin ''home'' ''secret'',
              WiFiMode WIFI_STA, WiFiBegin ''home'' ''secret'',
              WiFiMode WIFI_AP, SoftAP ''WiFi Manager'' ''123456789'', ServerBegin, DnsStart],
             False, True, 0, 0)"
proof (intro conjI)
  show "reintentarConexionSiNecesario flapEnv \<lparr>uptime = 50000, events = []\<rparr>
       (smartMgr\<lparr>failCount := 2, failWindowStart := 25000\<rparr>)
     = Some (\<lparr>uptime = 50000, events = []\<rparr>,
             smartMgr\<lparr>failCount := 2, failWindowStart := 25000, connected := True\<rparr>)"
    by (simp add: reintentarConexionSiNecesario_def flapEnv_def quietEnv_def smartMgr_def
          initial_def)
  show "map_option (\<lambda>(w, s). (events w, connected s, portalActive s, failCount s, failWindowStart s))
       (reconnectTicks flapEnv [20000, 35000, 50000] world0 smartMgr)
     = Some ([WiFiMode WIFI_STA, WiFiBegin ''home'' ''secret'',
              WiFiMode WIFI_STA, WiFiBegin ''home'' ''secret''], True, False, 2, 25000)"
    apply (simp add: reintentarConexionSiNecesario_def smartRetries_def flapEnv_def
          quietEnv_def smartMgr_def world0_def initial_def millis_def emit_def Let_def)
    apply (subst reconnectWait.simps, simp add: millis_def delay_def emit_def smartRetries_def
             reintentarConexionSiNecesario_def Let_def word_le_nat_alt)+
    done
  show "map_option (\<lambda>(w, s). (events w, connected s, portalActive s, failCount s, failWindowStart s))
       (reconnectTicks flapEnv [20000, 35000, 50000, 65000] world0 smartMgr)
     = Some ([WiFiMode WIFI_STA, WiFiBegin ''home'' ''secret'',
              WiFiMode WIFI_STA, WiFiBegin ''home'' ''secret'',
              WiFiMode WIFI_STA, WiFiBegin ''home'' ''secret'',
              WiFiMode WIFI_AP, SoftAP ''WiFi Manager'' ''123456789'', ServerBegin, DnsStart],
             False, True, 0, 0)"
    apply (simp add: reintentarConexionSiNecesario_def smartRetries_def flapEnv_def
          quietEnv_def smartMgr_def world0_def initial_def millis_def emit_def Let_def)
    apply (subst reconnectWait.simps, simp add: millis_def delay_def emit_def smartRetries_def
             reintentarConexionSiNecesario_def Let_def word_le_nat_alt
             startPortal_def startDNS_def setupAP_def ledSet_def)+
    done
qed

text \<open>
  The attempt that succeeds inside the driver (line 664) does write both members of
  the window back to 0; the return at line 634 is the one path to \<open>connected\<close> that
  does not. With the link up for the whole attempt of the third call instead, the
  fourth failure counts 1 and the portal stays closed.
\<close>

lemma reconnect_inside_resets:
  "map_option (\<lambda>(w, s). (connected s, portalActive s, failCount s, failWindowStart s))
       (reconnectTicks (quietEnv\<lparr>linkUp := (\<lambda>t. 50100 \<le> t \<and> t < 55000)\<rparr>)
          [20000, 35000, 50000] world0 smartMgr)
     = Some (True, False, 0, 0)
   \<and> map_option (\<lambda>(w, s). (connected s, portalActive s, failCount s, failWindowStart s))
       (reconnectTicks (quietEnv\<lparr>linkUp := (\<lambda>t. 50100 \<le> t \<and> t < 55000)\<rparr>)
          [20000, 35000, 50000, 65000] world0 smartMgr)
     = Some (False, False, 1, 70000)"
proof (intro conjI)
  show "map_option (\<lambda>(w, s). (connected s, portalActive s, failCount s, failWindowStart s))
       (reconnectTicks (quietEnv\<lparr>linkUp := (\<lambda>t. 50100 \<le> t \<and> t < 55000)\<rparr>)
          [20000, 35000, 50000] world0 smartMgr)
     = Some (True, False, 0, 0)"
    apply (simp add: reintentarConexionSiNecesario_def smartRetries_def
          quietEnv_def smartMgr_def world0_def initial_def millis_def emit_def Let_def)
    apply (subst reconnectWait.simps, simp add: millis_def delay_def emit_def smartRetries_def
             reintentarConexionSiNecesario_def sincronizarHoraNTP_def Let_def word_le_nat_alt)+
    done
  show "map_option (\<lambda>(w, s). (connected s, portalActive s, failCount s, failWindowStart s))
       (reconnectTicks (quietEnv\<lparr>linkUp := (\<lambda>t. 50100 \<le> t \<and> t < 55000)\<rparr>)
          [20000, 35000, 50000, 65000] world0 smartMgr)
     = Some (False, False, 1, 70000)"
    apply (simp add: reintentarConexionSiNecesario_def smartRetries_def
          quietEnv_def smartMgr_def world0_def initial_def millis_def emit_def Let_def)
    apply (subst reconnectWait.simps, simp add: millis_def delay_def emit_def smartRetries_def
             reintentarConexionSiNecesario_def sincronizarHoraNTP_def Let_def word_le_nat_alt)+
    done
qed

subsection \<open>C10: no credential, but the attempt time is stamped\<close>

text \<open>
  C10. A call of the driver while disconnected and past the backoff, with an empty
  \<open>ssid\<close> or \<open>password\<close>, does nothing to the collaborators (no connection attempt)
  and still writes \<open>ultimoIntentoWiFi = millis()\<close>. A later call within the backoff,
  whatever credential \<open>a\<close>, \<open>b\<close> the manager holds by then, returns with the world as
  it was: no attempt either.
\<close>

theorem no_credential_stamps_backoff:
  assumes "autoReconnect s" "\<not> linkUp e (uptime w)"
      and "\<not> millis w - ultimoIntentoWiFi s < reconnectBackoffMs s"
      and "ssid s = [] \<or> password s = []"
  shows "reintentarConexionSiNecesario e w s =
           Some (w, s\<lparr>connected := False, ultimoIntentoWiFi := millis w\<rparr>)
       \<and> (\<forall>t2 a b. uptime w \<le> t2 \<and> t2 - uptime w < unat (reconnectBackoffMs s) \<longrightarrow>
            (\<exists>s'. reintentarConexionSiNecesario e (w\<lparr>uptime := t2\<rparr>)
                     (s\<lparr>connected := False, ultimoIntentoWiFi := millis w,
                        ssid := a, password := b\<rparr>)
                   = Some (w\<lparr>uptime := t2\<rparr>, s')))"
proof (intro conjI allI impI)
  show "reintentarConexionSiNecesario e w s =
           Some (w, s\<lparr>connected := False, ultimoIntentoWiFi := millis w\<rparr>)"
    using assms by (rule reintentar_no_credential)
next
  fix t2 a b
  assume t: "uptime w \<le> t2 \<and> t2 - uptime w < unat (reconnectBackoffMs s)"
  let ?w2 = "w\<lparr>uptime := t2\<rparr>"
  let ?s2 = "s\<lparr>connected := False, ultimoIntentoWiFi := millis w, ssid := a, password := b\<rparr>"
  have ar: "autoReconnect ?s2" using assms(1) by simp
  have "millis ?w2 - ultimoIntentoWiFi ?s2 < reconnectBackoffMs ?s2"
    using t by (simp add: millis_def millis_later)
  then show "\<exists>s'. reintentarConexionSiNecesario e ?w2 ?s2 = Some (?w2, s')"
    using reintentar_backoff [OF ar, of e ?w2] reintentar_connected [OF ar, of e ?w2]
    by (cases "linkUp e (uptime ?w2)") auto
qed

theorem no_credential_stamps_backoff_witness:
  "reintentarConexionSiNecesario quietEnv \<lparr>uptime = 20000, events = []\<rparr> initial
     = Some (\<lparr>uptime = 20000, events = []\<rparr>, initial\<lparr>connected := False, ultimoIntentoWiFi := 20000\<rparr>)
 \<and> (\<exists>s'. reintentarConexionSiNecesario quietEnv \<lparr>uptime = 25000, events = []\<rparr>
             (initial\<lparr>connected := False, ultimoIntentoWiFi := 20000,
                      ssid := ''home'', password := ''secret''\<rparr>)
           = Some (\<lparr>uptime = 25000, events = []\<rparr>, s'))"
  using no_credential_stamps_backoff [of initial quietEnv "\<lparr>uptime = 20000, events = []\<rparr>",
          THEN conjunct1]
        no_credential_stamps_backoff [of initial quietEnv "\<lparr>uptime = 20000, events = []\<rparr>",
          THEN conjunct2, rule_format, of 25000 "''secret''" "''home''"]
  by (simp add: initial_def quietEnv_def millis_def)

subsection \<open>C1: the fallback policy of the decision cycle\<close>

text \<open>
  C1. When the button gesture of \<^verbatim>\<open>run()\<close> falls through to the connection attempt,
  \<^verbatim>\<open>run()\<close> returns, and the portal is active afterwards exactly when it was active
  before or the policy table says open: the attempt failed, and the policy is
  \<open>ON_FAIL\<close>, or it is \<open>NO_CREDENTIALS_ONLY\<close> and no credential is stored.
  \<open>SMART_RETRIES\<close>, \<open>BUTTON_ONLY\<close> and \<open>NEVER\<close> never open it here, and no policy
  opens it after an attempt that succeeded.
\<close>

theorem fallback_policy_table:
  assumes "runGesture e w s = GestureNone w1 s1"
      and "connectToWiFi e w1 s1 = (w2, s2, ok)"
  shows "\<exists>w' s'. run e w s = Returned w' s'
          \<and> (portalActive s' \<longleftrightarrow>
               portalActive s \<or>
               (\<not> ok \<and>
                 (case fallbackPolicy s of
                    ON_FAIL \<Rightarrow> True
                  | NO_CREDENTIALS_ONLY \<Rightarrow> \<not> tieneCredenciales e w2 s2
                  | SMART_RETRIES \<Rightarrow> False
                  | BUTTON_ONLY \<Rightarrow> False
                  | NEVER \<Rightarrow> False)))"
proof -
  from runGesture_none_frame [OF assms(1)]
  have fr: "ledFrame s s1" by simp
  from connectToWiFi_frame [OF assms(2)]
  have s2: "portalActive s2 = portalActive s" "fallbackPolicy s2 = fallbackPolicy s"
    using ledFrame_fields(1) [OF fr] ledFrame_more(1) [OF fr] by (auto split: if_splits)
  show ?thesis
  proof (cases ok)
    case True
    with assms s2 show ?thesis
      by (simp add: run_def runFallback_def ledSet_def Let_def)
  next
    case False
    with assms s2 startPortal_core [of w2 s2] show ?thesis
      by (cases "fallbackPolicy s")
         (auto simp add: run_def runFallback_def split: prod.splits)
  qed
qed

theorem fallback_policy_table_witness:
  "(\<exists>w1 s1 w2 s2 ok w' s'.
       runGesture bootEnv world0 initial = GestureNone w1 s1
     \<and> connectToWiFi bootEnv w1 s1 = (w2, s2, ok)
     \<and> run bootEnv world0 initial = Returned w' s' \<and> portalActive s')
 \<and> (\<exists>w1 s1 w2 s2 ok w' s'.
       runGesture bootEnv world0 (initial\<lparr>fallbackPolicy := ON_FAIL\<rparr>) = GestureNone w1 s1
     \<and> connectToWiFi bootEnv w1 s1 = (w2, s2, ok)
     \<and> run bootEnv world0 (initial\<lparr>fallbackPolicy := ON_FAIL\<rparr>) = Returned w' s' \<and> portalActive s')
 \<and> (\<exists>w1 s1 w2 s2 ok w' s'.
       runGesture bootEnv world0 (initial\<lparr>fallbackPolicy := NEVER\<rparr>) = GestureNone w1 s1
     \<and> connectToWiFi bootEnv w1 s1 = (w2, s2, ok)
     \<and> run bootEnv world0 (initial\<lparr>fallbackPolicy := NEVER\<rparr>) = Returned w' s' \<and> \<not> portalActive s')"
proof -
  have i: "initial\<lparr>fallbackPolicy := NO_CREDENTIALS_ONLY\<rparr> = initial" by (simp add: initial_def)
  have g: "\<exists>w1 s1. runGesture bootEnv world0 (initial\<lparr>fallbackPolicy := p\<rparr>) = GestureNone w1 s1" for p
    using arm_none [of p] by (auto simp add: runGesture_def Let_def)
  have nc: "\<not> tieneCredenciales bootEnv w s" for w s
    by (simp add: tieneCredenciales_def bootEnv_def quietEnv_def)
  have r: "\<exists>w1 s1 w2 s2 ok w' s'.
       runGesture bootEnv world0 (initial\<lparr>fallbackPolicy := p\<rparr>) = GestureNone w1 s1
     \<and> connectToWiFi bootEnv w1 s1 = (w2, s2, ok)
     \<and> run bootEnv world0 (initial\<lparr>fallbackPolicy := p\<rparr>) = Returned w' s'
     \<and> (portalActive s' \<longleftrightarrow> p = ON_FAIL \<or> p = NO_CREDENTIALS_ONLY)" for p
  proof -
    from g [of p] obtain w1 s1 where
      g1: "runGesture bootEnv world0 (initial\<lparr>fallbackPolicy := p\<rparr>) = GestureNone w1 s1" by blast
    obtain w2 s2 ok where c: "connectToWiFi bootEnv w1 s1 = (w2, s2, ok)" by (metis prod_cases3)
    have nok: "\<not> ok" using connectToWiFi_frame [OF c] nc by simp
    from fallback_policy_table [OF g1 c] obtain w' s' where
      "run bootEnv world0 (initial\<lparr>fallbackPolicy := p\<rparr>) = Returned w' s'"
      "portalActive s' \<longleftrightarrow> p = ON_FAIL \<or> p = NO_CREDENTIALS_ONLY"
      using nok nc by (cases p) (auto simp add: initial_def)
    with g1 c show ?thesis by blast
  qed
  from r [of NO_CREDENTIALS_ONLY] r [of ON_FAIL] r [of NEVER] show ?thesis
    by (simp add: i)
qed

subsection \<open>C5: the bands of the button gesture\<close>

text \<open>
  What the gesture does, by the value of \<open>held\<close>, which is \<^verbatim>\<open>millis() - t0\<close> as the
  code computes it. A press was seen in the arming window at \<open>w1\<close>.
  \<^item> Release read with \<open>held < 2000\<close>: the gesture has no side effect; the
    collaborators saw nothing and the manager differs in the LED members only.
  \<^item> Release read with \<open>2000 \<le> held < 5000\<close>: the portal is opened if and only if
    \<open>allowButtonPortal\<close> is set.
  \<^item> Release read with \<open>held \<ge> 5000\<close>: no side effect either, whatever
    \<open>allowButtonPortal\<close> is.
  \<^item> A reading of the button still down with \<open>held \<ge> 5000\<close>: the loop erases the
    JSON files and restarts on the spot; the result depends on no later reading of
    the button. A gesture that ends in a restart has done exactly these two things.
\<close>

lemma gesture_bands:
  assumes arm: "armWait e (millis w) w (ledSet w BLINK_SLOW s) = (w1, s1, True)"
  shows
   "(\<forall>w2 s2. holdLoop e (millis w1) w1 (ledSet w1 LED_OFF s1) = Returned w2 s2 \<longrightarrow>
       (millis w2 - millis w1 < 2000 \<longrightarrow>
          runGesture e w s = GestureNone w2 (setLedAuto w2 True s2)
          \<and> events w2 = events w \<and> ledFrame s s2)
     \<and> (2000 \<le> millis w2 - millis w1 \<and> millis w2 - millis w1 < 5000 \<longrightarrow>
          (if allowButtonPortal s
           then \<exists>w3 s3. runGesture e w s = GesturePortal w3 s3 \<and> portalActive s3
                  \<and> startPortal w2 (setLedAuto w2 True s2) = (w3, s3)
           else runGesture e w s = GestureNone w2 (setLedAuto w2 True s2)
                  \<and> events w2 = events w \<and> ledFrame s s2))
     \<and> (5000 \<le> millis w2 - millis w1 \<longrightarrow>
          runGesture e w s = GestureNone w2 (setLedAuto w2 True s2)
          \<and> events w2 = events w \<and> ledFrame s s2))
    \<and> (\<forall>w2 s2. buttonLow e (uptime w2) \<and> 5000 \<le> millis w2 - millis w1 \<longrightarrow>
          holdLoop e (millis w1) w2 s2 =
            Restarted (emit Restart (delay e 900 (emit (EraseJsonInDir ''/'') w2))))
    \<and> (\<forall>w'. holdLoop e (millis w1) w1 (ledSet w1 LED_OFF s1) = Restarted w' \<longrightarrow>
          runGesture e w s = GestureRestart w'
          \<and> events w' = events w @ [EraseJsonInDir ''/'', Restart])"
proof (intro conjI allI impI)
  fix w2 s2
  assume hold: "holdLoop e (millis w1) w1 (ledSet w1 LED_OFF s1) = Returned w2 s2"
  from armWait_frame [OF arm]
  have fa: "ledFrame (ledSet w BLINK_SLOW s) s1" "events w1 = events w" by simp_all
  from holdLoop_frame [OF hold]
  have fh: "ledFrame (ledSet w1 LED_OFF s1) s2" "events w2 = events w1" by simp_all
  have fr: "ledFrame s s2"
    by (rule ledFrame_trans [OF ledFrame_ledSet
          ledFrame_trans [OF fa(1) ledFrame_trans [OF ledFrame_ledSet fh(1)]]])
  have allow: "allowButtonPortal s2 = allowButtonPortal s"
    by (rule ledFrame_fields(9) [OF fr])
  {
    assume "millis w2 - millis w1 < 2000"
    then have "\<not> 2000 \<le> millis w2 - millis w1" by simp
    then show "runGesture e w s = GestureNone w2 (setLedAuto w2 True s2)"
      using arm hold by (simp add: runGesture_def Let_def)
    show "events w2 = events w" using fa fh by simp
    show "ledFrame s s2" by (rule fr)
  }
  {
    assume band: "2000 \<le> millis w2 - millis w1 \<and> millis w2 - millis w1 < 5000"
    show "if allowButtonPortal s
           then \<exists>w3 s3. runGesture e w s = GesturePortal w3 s3 \<and> portalActive s3
                  \<and> startPortal w2 (setLedAuto w2 True s2) = (w3, s3)
           else runGesture e w s = GestureNone w2 (setLedAuto w2 True s2)
                  \<and> events w2 = events w \<and> ledFrame s s2"
    proof (cases "allowButtonPortal s")
      case True
      obtain w3 s3 where sp: "startPortal w2 (setLedAuto w2 True s2) = (w3, s3)"
        by (metis surj_pair)
      have "portalActive s3"
        using startPortal_opens [of w2 "setLedAuto w2 True s2"] sp by simp
      with True sp arm hold band allow show ?thesis
        by (simp add: runGesture_def Let_def)
    next
      case False
      with arm hold band allow fa fh fr show ?thesis
        by (simp add: runGesture_def Let_def)
    qed
  }
  {
    assume "5000 \<le> millis w2 - millis w1"
    then have "\<not> millis w2 - millis w1 < 5000" by simp
    then show "runGesture e w s = GestureNone w2 (setLedAuto w2 True s2)"
      using arm hold by (simp add: runGesture_def Let_def)
    show "events w2 = events w" using fa fh by simp
    show "ledFrame s s2" by (rule fr)
  }
next
  fix w2 s2
  assume "buttonLow e (uptime w2) \<and> 5000 \<le> millis w2 - millis w1"
  then show "holdLoop e (millis w1) w2 s2 =
            Restarted (emit Restart (delay e 900 (emit (EraseJsonInDir ''/'') w2)))"
    by (simp add: holdLoop_long)
next
  fix w'
  assume r: "holdLoop e (millis w1) w1 (ledSet w1 LED_OFF s1) = Restarted w'"
  show "runGesture e w s = GestureRestart w'"
    using arm r by (simp add: runGesture_def Let_def)
  from armWait_frame [OF arm] holdLoop_restart [OF r]
  show "events w' = events w @ [EraseJsonInDir ''/'', Restart]" by simp
qed

text \<open>
  The four bands on runs of the gesture from boot: a release read at 1999, 2000 and
  4999 ms, and the button still down at 5000 ms.
\<close>

lemma gesture_bands_examples:
  "(\<exists>w2 s2. holdLoop (holdEnv 1999 1855 134) (millis world0) world0 (armed True) = Returned w2 s2
      \<and> millis w2 - millis world0 = 1999
      \<and> runGesture (holdEnv 1999 1855 134) world0 initial = GestureNone w2 (setLedAuto w2 True s2)
      \<and> events w2 = [])
 \<and> (\<exists>w2 s2 w3 s3. holdLoop (holdEnv 2000 1855 135) (millis world0) world0 (armed True) = Returned w2 s2
      \<and> millis w2 - millis world0 = 2000
      \<and> runGesture (holdEnv 2000 1855 135) world0 initial = GesturePortal w3 s3 \<and> portalActive s3)
 \<and> (\<exists>w2 s2. holdLoop (holdEnv 2000 1855 135) (millis world0) world0 (armed False) = Returned w2 s2
      \<and> millis w2 - millis world0 = 2000
      \<and> runGesture (holdEnv 2000 1855 135) world0 (initial\<lparr>allowButtonPortal := False\<rparr>)
           = GestureNone w2 (setLedAuto w2 True s2)
      \<and> events w2 = [])
 \<and> (\<exists>w2 s2 w3 s3. holdLoop (holdEnv 4999 4770 219) (millis world0) world0 (armed True) = Returned w2 s2
      \<and> millis w2 - millis world0 = 4999
      \<and> runGesture (holdEnv 4999 4770 219) world0 initial = GesturePortal w3 s3 \<and> portalActive s3)
 \<and> (\<exists>w'. runGesture (holdEnv 6000 4770 220) world0 initial = GestureRestart w'
      \<and> events w' = [EraseJsonInDir ''/'', Restart])"
proof -
  have i: "initial\<lparr>allowButtonPortal := True\<rparr> = initial" by (simp add: initial_def)
  have a: "allowButtonPortal initial" by (simp add: initial_def)
  have e0: "events world0 = []" by (simp add: world0_def)
  have 1: "\<exists>w2 s2. holdLoop (holdEnv 1999 1855 134) (millis world0) world0 (armed True) = Returned w2 s2
      \<and> millis w2 - millis world0 = 1999
      \<and> runGesture (holdEnv 1999 1855 134) world0 initial = GestureNone w2 (setLedAuto w2 True s2)
      \<and> events w2 = []"
  proof -
    from hold1999 [of True] obtain w2 s2 where
      h: "holdLoop (holdEnv 1999 1855 134) (millis world0) world0 (armed True) = Returned w2 s2"
      and u: "uptime w2 = 1999" by blast
    have m: "millis w2 - millis world0 = 1999" using u by (simp add: millis_def world0_def)
    have arm: "armWait (holdEnv 1999 1855 134) (millis world0) world0 (ledSet world0 BLINK_SLOW initial)
       = (world0, ledSet world0 BLINK_SLOW initial, True)" by (rule arm0) simp
    from gesture_bands [OF arm, THEN conjunct1, rule_format, of w2 s2, THEN conjunct1] h m e0
    show ?thesis by (auto simp add: armed_def i)
  qed
  have 2: "\<exists>w2 s2 w3 s3. holdLoop (holdEnv 2000 1855 135) (millis world0) world0 (armed True) = Returned w2 s2
      \<and> millis w2 - millis world0 = 2000
      \<and> runGesture (holdEnv 2000 1855 135) world0 initial = GesturePortal w3 s3 \<and> portalActive s3"
  proof -
    from hold2000 [of True] obtain w2 s2 where
      h: "holdLoop (holdEnv 2000 1855 135) (millis world0) world0 (armed True) = Returned w2 s2"
      and u: "uptime w2 = 2000" by blast
    have m: "millis w2 - millis world0 = 2000" using u by (simp add: millis_def world0_def)
    have arm: "armWait (holdEnv 2000 1855 135) (millis world0) world0 (ledSet world0 BLINK_SLOW initial)
       = (world0, ledSet world0 BLINK_SLOW initial, True)" by (rule arm0) simp
    from gesture_bands [OF arm, THEN conjunct1, rule_format, of w2 s2, THEN conjunct2] h m a
    show ?thesis by (auto simp add: armed_def i)
  qed
  have 3: "\<exists>w2 s2. holdLoop (holdEnv 2000 1855 135) (millis world0) world0 (armed False) = Returned w2 s2
      \<and> millis w2 - millis world0 = 2000
      \<and> runGesture (holdEnv 2000 1855 135) world0 (initial\<lparr>allowButtonPortal := False\<rparr>)
           = GestureNone w2 (setLedAuto w2 True s2)
      \<and> events w2 = []"
  proof -
    from hold2000 [of False] obtain w2 s2 where
      h: "holdLoop (holdEnv 2000 1855 135) (millis world0) world0 (armed False) = Returned w2 s2"
      and u: "uptime w2 = 2000" by blast
    have m: "millis w2 - millis world0 = 2000" using u by (simp add: millis_def world0_def)
    have arm: "armWait (holdEnv 2000 1855 135) (millis world0) world0
         (ledSet world0 BLINK_SLOW (initial\<lparr>allowButtonPortal := False\<rparr>))
       = (world0, ledSet world0 BLINK_SLOW (initial\<lparr>allowButtonPortal := False\<rparr>), True)"
      by (rule arm0) simp
    from gesture_bands [OF arm, THEN conjunct1, rule_format, of w2 s2, THEN conjunct2] h m e0
    show ?thesis by (auto simp add: armed_def)
  qed
  have 4: "\<exists>w2 s2 w3 s3. holdLoop (holdEnv 4999 4770 219) (millis world0) world0 (armed True) = Returned w2 s2
      \<and> millis w2 - millis world0 = 4999
      \<and> runGesture (holdEnv 4999 4770 219) world0 initial = GesturePortal w3 s3 \<and> portalActive s3"
  proof -
    from hold4999 [of True] obtain w2 s2 where
      h: "holdLoop (holdEnv 4999 4770 219) (millis world0) world0 (armed True) = Returned w2 s2"
      and u: "uptime w2 = 4999" by blast
    have m: "millis w2 - millis world0 = 4999" using u by (simp add: millis_def world0_def)
    have arm: "armWait (holdEnv 4999 4770 219) (millis world0) world0 (ledSet world0 BLINK_SLOW initial)
       = (world0, ledSet world0 BLINK_SLOW initial, True)" by (rule arm0) simp
    from gesture_bands [OF arm, THEN conjunct1, rule_format, of w2 s2, THEN conjunct2] h m a
    show ?thesis by (auto simp add: armed_def i)
  qed
  have 5: "\<exists>w'. runGesture (holdEnv 6000 4770 220) world0 initial = GestureRestart w'
      \<and> events w' = [EraseJsonInDir ''/'', Restart]"
  proof -
    from hold5000 [of True] obtain w' where
      h: "holdLoop (holdEnv 6000 4770 220) (millis world0) world0 (armed True) = Restarted w'"
      by blast
    have arm: "armWait (holdEnv 6000 4770 220) (millis world0) world0 (ledSet world0 BLINK_SLOW initial)
       = (world0, ledSet world0 BLINK_SLOW initial, True)" by (rule arm0) simp
    from gesture_bands [OF arm, THEN conjunct2, THEN conjunct2, rule_format, of w'] h e0
    show ?thesis by (auto simp add: armed_def i)
  qed
  from 1 2 3 4 5 show ?thesis by blast
qed

text \<open>
  C5. A hold of 5000 ms that is not classified. The button is down from boot until the
  uptime 5000 and the loop polls it every 10 ms, with no overrun: it is read down for
  the last time with \<open>held = 4990\<close>, and read up at 5000, where the loop ends. The value
  of \<open>held\<close> computed after the loop is 5000, which the test that follows excludes
  (\<^verbatim>\<open>held < 5000\<close>): the gesture neither erases and restarts nor opens the portal,
  although \<open>allowButtonPortal\<close> is set. The run ends at the uptime 5000 with no event
  and falls through to the connection attempt.
\<close>

theorem release_read_at_5000:
  "\<exists>s2. runGesture (pollEnv 5000) world0 initial
           = GestureNone \<lparr>uptime = 5000, events = []\<rparr> s2
         \<and> allowButtonPortal s2 \<and> portalActive s2 = False \<and> ledFrame initial s2"
proof -
  have i: "initial\<lparr>allowButtonPortal := True\<rparr> = initial" by (simp add: initial_def)
  from poll5000 [of True] obtain s2 where
    h: "holdLoop (pollEnv 5000) (millis world0) world0 (armed True)
          = Returned \<lparr>uptime = 5000, events = []\<rparr> s2" by blast
  have arm: "armWait (pollEnv 5000) (millis world0) world0 (ledSet world0 BLINK_SLOW initial)
       = (world0, ledSet world0 BLINK_SLOW initial, True)" by (rule arm_poll) simp
  have h': "holdLoop (pollEnv 5000) (millis world0) world0
              (ledSet world0 LED_OFF (ledSet world0 BLINK_SLOW initial))
          = Returned \<lparr>uptime = 5000, events = []\<rparr> s2"
    using h by (simp add: armed_def i)
  have m: "millis \<lparr>uptime = 5000, events = []\<rparr> - millis world0 = 5000"
    by (simp add: millis_def world0_def)
  have g: "runGesture (pollEnv 5000) world0 initial
             = GestureNone \<lparr>uptime = 5000, events = []\<rparr>
                 (setLedAuto \<lparr>uptime = 5000, events = []\<rparr> True s2)"
    using arm h' m by (simp add: runGesture_def Let_def)
  from holdLoop_frame [OF h']
  have fh: "ledFrame (ledSet world0 LED_OFF (ledSet world0 BLINK_SLOW initial)) s2" by simp
  have f: "ledFrame initial s2"
    by (rule ledFrame_trans [OF ledFrame_ledSet ledFrame_trans [OF ledFrame_ledSet fh]])
  have f2: "ledFrame initial (setLedAuto \<lparr>uptime = 5000, events = []\<rparr> True s2)"
    by (rule ledFrame_trans [OF f ledFrame_setLedAuto])
  from ledFrame_fields [OF f2]
  have "allowButtonPortal (setLedAuto \<lparr>uptime = 5000, events = []\<rparr> True s2)"
       "portalActive (setLedAuto \<lparr>uptime = 5000, events = []\<rparr> True s2) = False"
    by (simp_all add: initial_def)
  with g f2 show ?thesis by blast
qed

text \<open>
  One millisecond more and the button is read down with \<open>held = 5000\<close>: the loop erases
  and restarts.
\<close>

lemma hold_5001_restarts:
  "\<exists>w'. runGesture (pollEnv 5001) world0 initial = GestureRestart w'
         \<and> events w' = [EraseJsonInDir ''/'', Restart]"
proof -
  have i: "initial\<lparr>allowButtonPortal := True\<rparr> = initial" by (simp add: initial_def)
  have "\<exists>w'. holdLoop (pollEnv 5001) (millis world0) world0 (armed True) = Restarted w'
           \<and> events w' = [EraseJsonInDir ''/'', Restart]"
    by (subst holdLoop.simps, simp add: poll_defs)+
  then obtain w' where
    h: "holdLoop (pollEnv 5001) (millis world0) world0
          (ledSet world0 LED_OFF (ledSet world0 BLINK_SLOW initial)) = Restarted w'"
    and ev: "events w' = [EraseJsonInDir ''/'', Restart]"
    by (auto simp add: armed_def i)
  have arm: "armWait (pollEnv 5001) (millis world0) world0 (ledSet world0 BLINK_SLOW initial)
       = (world0, ledSet world0 BLINK_SLOW initial, True)" by (rule arm_poll) simp
  have "runGesture (pollEnv 5001) world0 initial = GestureRestart w'"
    using arm h by (simp add: runGesture_def Let_def)
  with ev show ?thesis by blast
qed

subsection \<open>C9: the floor of the reconnection timings\<close>

text \<open>
  C9. Both reconnection timings are at least 1000 ms in the initial manager. The two
  setters return for every input and store the input clamped from below to 1000. Every
  call of the public interface that returns keeps both timings at 1000 ms or more, and
  no call but the timing's own setter changes it.
\<close>

theorem reconnect_floor_invariant:
  "1000 \<le> reconnectBackoffMs initial \<and> 1000 \<le> reconnectAttemptMs initial
 \<and> exec e (SetReconnectBackoffMs ms) w s =
       Some (Returned w (s\<lparr>reconnectBackoffMs := (if ms < 1000 then 1000 else ms)\<rparr>))
 \<and> exec e (SetReconnectAttemptMs ms) w s =
       Some (Returned w (s\<lparr>reconnectAttemptMs := (if ms < 1000 then 1000 else ms)\<rparr>))
 \<and> (\<forall>c w' s'. exec e c w s = Some (Returned w' s') \<longrightarrow>
        (1000 \<le> reconnectBackoffMs s \<longrightarrow> 1000 \<le> reconnectBackoffMs s')
      \<and> (1000 \<le> reconnectAttemptMs s \<longrightarrow> 1000 \<le> reconnectAttemptMs s')
      \<and> ((\<forall>ms. c \<noteq> SetReconnectBackoffMs ms) \<longrightarrow> reconnectBackoffMs s' = reconnectBackoffMs s)
      \<and> ((\<forall>ms. c \<noteq> SetReconnectAttemptMs ms) \<longrightarrow> reconnectAttemptMs s' = reconnectAttemptMs s))"
proof (intro conjI allI impI)
  show "1000 \<le> reconnectBackoffMs initial" "1000 \<le> reconnectAttemptMs initial"
    by (simp_all add: initial_def)
  show "exec e (SetReconnectBackoffMs ms) w s =
       Some (Returned w (s\<lparr>reconnectBackoffMs := (if ms < 1000 then 1000 else ms)\<rparr>))"
    by (simp add: ret_def setReconnectBackoffMs_def)
  show "exec e (SetReconnectAttemptMs ms) w s =
       Some (Returned w (s\<lparr>reconnectAttemptMs := (if ms < 1000 then 1000 else ms)\<rparr>))"
    by (simp add: ret_def setReconnectAttemptMs_def)
next
  fix c w' s'
  assume x: "exec e c w s = Some (Returned w' s')"
  note f = cfg_exec [OF x]
  { assume "1000 \<le> reconnectBackoffMs s"
    with f show "1000 \<le> reconnectBackoffMs s'" by blast }
  { assume "1000 \<le> reconnectAttemptMs s"
    with f show "1000 \<le> reconnectAttemptMs s'" by blast }
  { assume "\<forall>ms. c \<noteq> SetReconnectBackoffMs ms"
    with f show "reconnectBackoffMs s' = reconnectBackoffMs s" by blast }
  { assume "\<forall>ms. c \<noteq> SetReconnectAttemptMs ms"
    with f show "reconnectAttemptMs s' = reconnectAttemptMs s" by blast }
qed

theorem reconnect_floor_invariant_witness:
  "reconnectBackoffMs (snd (update quietEnv world0 (setReconnectBackoffMs 5 initial))) = 1000
 \<and> reconnectAttemptMs (snd (update quietEnv world0 (setReconnectBackoffMs 5 initial))) = 5000
 \<and> exec quietEnv (SetReconnectAttemptMs 999) world0 initial
      = Some (Returned world0 (initial\<lparr>reconnectAttemptMs := 1000\<rparr>))
 \<and> exec quietEnv (SetReconnectAttemptMs 1000) world0 initial
      = Some (Returned world0 (initial\<lparr>reconnectAttemptMs := 1000\<rparr>))"
proof -
  let ?s = "setReconnectBackoffMs 5 initial"
  let ?u = "update quietEnv world0 ?s"
  have x: "exec quietEnv Update world0 ?s = Some (Returned (fst ?u) (snd ?u))"
    by (simp add: ret_def split: prod.split)
  from reconnect_floor_invariant [of quietEnv 999 world0 ?s, THEN conjunct2, THEN conjunct2,
          THEN conjunct2, THEN conjunct2, rule_format, OF x]
  have "reconnectBackoffMs (snd ?u) = reconnectBackoffMs ?s"
       "reconnectAttemptMs (snd ?u) = reconnectAttemptMs ?s"
    by simp_all
  moreover have "reconnectBackoffMs ?s = 1000" "reconnectAttemptMs ?s = 5000"
    by (simp_all add: setReconnectBackoffMs_def initial_def)
  moreover note reconnect_floor_invariant [of quietEnv 999 world0 initial]
    reconnect_floor_invariant [of quietEnv 1000 world0 initial]
  ultimately show ?thesis by simp
qed

subsection \<open>C2: three failures under SMART_RETRIES\<close>

text \<open>
  C2. Three consecutive failed attempts of the driver, 15 s apart, under
  \<^verbatim>\<open>SMART_RETRIES\<close> with the default threshold 3 and window 60000 ms. The first call is
  made 5 s before the 32-bit clock wraps, so the first failure reads
  \<^verbatim>\<open>millis() == 0\<close> and the window start it stores is the value that means "no window":
  the second failure starts the count again, and after the third the count is 2 and
  the portal is closed.
\<close>

theorem smart_retries_sentinel:
  "map_option (\<lambda>(w, s). (events w, portalActive s, failCount s, failWindowStart s))
     (reconnectTicks quietEnv [4294962296, 4294977296, 4294992296] world0 smartMgr)
   = Some ([WiFiMode WIFI_STA, WiFiBegin ''home'' ''secret'',
            WiFiMode WIFI_STA, WiFiBegin ''home'' ''secret'',
            WiFiMode WIFI_STA, WiFiBegin ''home'' ''secret''], False, 2, 15000)"
  apply (simp add: reintentarConexionSiNecesario_def smartRetries_def
        quietEnv_def smartMgr_def world0_def initial_def millis_def emit_def Let_def)
  apply (subst reconnectWait.simps, simp add: millis_def delay_def emit_def smartRetries_def
           reintentarConexionSiNecesario_def Let_def word_le_nat_alt)+
  done

text \<open>
  Away from the wrap the window works as the claim says. The same three calls made
  at 20 s, 35 s and 50 s of uptime open the portal and put the window back to zero.
\<close>

lemma smart_retries_three_failures:
  "map_option (\<lambda>(w, s). (events w, portalActive s, failCount s, failWindowStart s))
     (reconnectTicks quietEnv [20000, 35000, 50000] world0 smartMgr)
   = Some ([WiFiMode WIFI_STA, WiFiBegin ''home'' ''secret'',
            WiFiMode WIFI_STA, WiFiBegin ''home'' ''secret'',
            WiFiMode WIFI_STA, WiFiBegin ''home'' ''secret'',
            WiFiMode WIFI_AP, SoftAP ''WiFi Manager'' ''123456789'', ServerBegin, DnsStart],
           True, 0, 0)"
  apply (simp add: reintentarConexionSiNecesario_def smartRetries_def
        quietEnv_def smartMgr_def world0_def initial_def millis_def emit_def Let_def)
  apply (subst reconnectWait.simps, simp add: millis_def delay_def emit_def smartRetries_def
           reintentarConexionSiNecesario_def Let_def word_le_nat_alt
           startPortal_def startDNS_def setupAP_def ledSet_def)+
  done

text \<open>
  In general: under the threshold 3 and the window 60000 ms, from a closed window,
  three failures within 60 s of which the first does not read \<^verbatim>\<open>millis() == 0\<close> count
  1, 2 and then open the portal and reset the window, and a fourth failure counts 1.
\<close>

lemma smart_retries_accumulate:
  assumes cfg: "maxFailRetries s = 3" "failWindowMs s = 60000"
      and fresh: "failCount s = 0" "failWindowStart s = 0"
      and nz: "millis w1 \<noteq> 0"
      and t: "uptime w1 \<le> uptime w2" "uptime w2 \<le> uptime w3" "uptime w3 - uptime w1 \<le> 60000"
  shows "\<exists>sa sb wc sc sd.
           smartRetries w1 s = (w1, sa) \<and> failCount sa = 1 \<and> portalActive sa = portalActive s
         \<and> smartRetries w2 sa = (w2, sb) \<and> failCount sb = 2 \<and> portalActive sb = portalActive s
         \<and> smartRetries w3 sb = (wc, sc) \<and> portalActive sc
         \<and> failCount sc = 0 \<and> failWindowStart sc = 0
         \<and> smartRetries w4 sc = (w4, sd) \<and> failCount sd = 1"
proof -
  let ?sa = "s\<lparr>failWindowStart := millis w1, failCount := 1\<rparr>"
  let ?sb = "s\<lparr>failWindowStart := millis w1, failCount := 2\<rparr>"
  let ?s3 = "s\<lparr>failWindowStart := millis w1, failCount := 3\<rparr>"
  let ?sc = "(snd (startPortal w3 ?s3))\<lparr>failCount := 0, failWindowStart := 0\<rparr>"
  have w12: "\<not> millis w2 - millis w1 > 60000"
    using t by (intro within_window) simp_all
  have w13: "\<not> millis w3 - millis w1 > 60000"
    using t by (intro within_window) simp_all
  have a: "smartRetries w1 s = (w1, ?sa)"
    using cfg fresh by (simp add: smartRetries_count Let_def word_le_nat_alt)
  have b: "smartRetries w2 ?sa = (w2, ?sb)"
    using cfg nz w12 by (simp add: smartRetries_count Let_def word_le_nat_alt)
  have c: "smartRetries w3 ?sb = (fst (startPortal w3 ?s3), ?sc)"
    using cfg nz w13 by (simp add: smartRetries_count Let_def word_le_nat_alt)
  have keep: "maxFailRetries ?sc = 3 \<and> failWindowMs ?sc = 60000"
    using cfg
    by (simp add: startPortal_def startDNS_def stopDNS_def ledSet_def Let_def split: prod.split)
  have d: "smartRetries w4 ?sc = (w4, ?sc\<lparr>failWindowStart := millis w4, failCount := 1\<rparr>)"
    using keep by (simp add: smartRetries_count Let_def word_le_nat_alt)
  have pc: "portalActive ?sc" using startPortal_opens [of w3 ?s3] by simp
  from a b c d pc show ?thesis
    by (intro exI [of _ ?sa] exI [of _ ?sb] exI [of _ "fst (startPortal w3 ?s3)"] exI [of _ ?sc]
          exI [of _ "?sc\<lparr>failWindowStart := millis w4, failCount := 1\<rparr>"]) simp
qed

end
